theory Spec2Isabelle
  imports Complex_Main "HOL-Library.Word"
begin

section \<open>Package metadata: the record model\<close>

text \<open>
  Go strings are byte sequences, modelled as \<open>string\<close> (a list of 8-bit characters).
  A \<open>float64\<close> coming out of the JSON decoder is a finite number; the code only compares
  such values with zero and copies them, so they are modelled as \<open>real\<close> (Go's negative
  zero compares equal to zero, like the one real zero). \<open>ImageViews\<close> is an \<open>int64\<close>.
\<close>

record GeoData =
  Latitude :: real
  Longitude :: real
  Altitude :: real
  LatitudeSpan :: real
  LongitudeSpan :: real

text \<open>\<open>GeoDataAlt\<close> is a second Go struct with the same five fields.\<close>

type_synonym GeoDataAlt = GeoData

text \<open>\<open>CreationTime\<close>, \<open>ModificationTime\<close> and \<open>PhotoTakenTime\<close> are three Go structs
  with the single field \<open>Timestamp\<close>.\<close>

record TimeField =
  Timestamp :: string

type_synonym CreationTime = TimeField
type_synonym ModificationTime = TimeField
type_synonym PhotoTakenTime = TimeField

text \<open>The struct \<open>Metadata\<close>; \<open>Supplemental\<close> is a pointer to another \<open>Metadata\<close>
  (nil is \<open>None\<close>), which makes the type recursive.\<close>

datatype Metadata = Metadata
  (Title: string)
  (Description: string)
  (ImageViews: "64 word")
  (CreationTime: CreationTime)
  (ModificationTime: ModificationTime)
  (GeoData: GeoData)
  (GeoDataAlt: GeoDataAlt)
  (PhotoTakenTime: PhotoTakenTime)
  (Supplemental: "Metadata option")

text \<open>Assignments to single fields of a \<open>Metadata\<close> value.\<close>

primrec set_Title :: "string \<Rightarrow> Metadata \<Rightarrow> Metadata" where
  "set_Title v (Metadata t d i c m g ga p s) = Metadata v d i c m g ga p s"

primrec set_Description :: "string \<Rightarrow> Metadata \<Rightarrow> Metadata" where
  "set_Description v (Metadata t d i c m g ga p s) = Metadata t v i c m g ga p s"

primrec set_ImageViews :: "64 word \<Rightarrow> Metadata \<Rightarrow> Metadata" where
  "set_ImageViews v (Metadata t d i c m g ga p s) = Metadata t d v c m g ga p s"

primrec set_CreationTime :: "CreationTime \<Rightarrow> Metadata \<Rightarrow> Metadata" where
  "set_CreationTime v (Metadata t d i c m g ga p s) = Metadata t d i v m g ga p s"

primrec set_GeoData :: "GeoData \<Rightarrow> Metadata \<Rightarrow> Metadata" where
  "set_GeoData v (Metadata t d i c m g ga p s) = Metadata t d i c m v ga p s"

primrec set_GeoDataAlt :: "GeoDataAlt \<Rightarrow> Metadata \<Rightarrow> Metadata" where
  "set_GeoDataAlt v (Metadata t d i c m g ga p s) = Metadata t d i c m g v p s"

primrec set_PhotoTakenTime :: "PhotoTakenTime \<Rightarrow> Metadata \<Rightarrow> Metadata" where
  "set_PhotoTakenTime v (Metadata t d i c m g ga p s) = Metadata t d i c m g ga v s"

text \<open>The zero value of the struct, as \<open>var meta Metadata\<close> creates it.\<close>

definition zeroGeoData :: GeoData where
  "zeroGeoData = \<lparr>Latitude = 0, Longitude = 0, Altitude = 0, LatitudeSpan = 0, LongitudeSpan = 0\<rparr>"

definition zeroMetadata :: Metadata where
  "zeroMetadata = Metadata [] [] 0 \<lparr>Timestamp = []\<rparr> \<lparr>Timestamp = []\<rparr>
     zeroGeoData zeroGeoData \<lparr>Timestamp = []\<rparr> None"

subsection \<open>mergeMetadata\<close>

text \<open>
  The function is a sequence of seven guarded assignments to the local copy \<open>primary\<close>.
  Each guard reads only the field it is about to assign, so the steps are written as a
  chain of \<open>let\<close>s over the updated value.
\<close>

definition mergeMetadata :: "Metadata \<Rightarrow> Metadata \<Rightarrow> Metadata" where
  "mergeMetadata primary supplemental =
    (let p1 = (if Title primary = [] \<and> Title supplemental \<noteq> []
               then set_Title (Title supplemental) primary else primary);
         p2 = (if Description p1 = [] \<and> Description supplemental \<noteq> []
               then set_Description (Description supplemental) p1 else p1);
         p3 = (if ImageViews p2 = 0 \<and> 0 <s ImageViews supplemental
               then set_ImageViews (ImageViews supplemental) p2 else p2);
         p4 = (if Timestamp (CreationTime p3) = [] \<and> Timestamp (CreationTime supplemental) \<noteq> []
               then set_CreationTime (CreationTime supplemental) p3 else p3);
         p5 = (if Timestamp (PhotoTakenTime p4) = [] \<and> Timestamp (PhotoTakenTime supplemental) \<noteq> []
               then set_PhotoTakenTime (PhotoTakenTime supplemental) p4 else p4);
         p6 = (if (Latitude (GeoData p5) = 0 \<and> Longitude (GeoData p5) = 0) \<and>
                  (Latitude (GeoData supplemental) \<noteq> 0 \<or> Longitude (GeoData supplemental) \<noteq> 0)
               then set_GeoData (GeoData supplemental) p5 else p5);
         p7 = (if (Latitude (GeoDataAlt p6) = 0 \<and> Longitude (GeoDataAlt p6) = 0) \<and>
                  (Latitude (GeoDataAlt supplemental) \<noteq> 0 \<or> Longitude (GeoDataAlt supplemental) \<noteq> 0)
               then set_GeoDataAlt (GeoDataAlt supplemental) p6 else p6)
     in p7)"

subsection \<open>The coordinate getters\<close>

text \<open>Each getter returns the Go pair (value, ok).\<close>

definition GetLatitude :: "Metadata \<Rightarrow> real \<times> bool" where
  "GetLatitude m =
    (if Latitude (GeoData m) \<noteq> 0 then (Latitude (GeoData m), True)
     else if Latitude (GeoDataAlt m) \<noteq> 0 then (Latitude (GeoDataAlt m), True)
     else (0, False))"

definition GetLongitude :: "Metadata \<Rightarrow> real \<times> bool" where
  "GetLongitude m =
    (if Longitude (GeoData m) \<noteq> 0 then (Longitude (GeoData m), True)
     else if Longitude (GeoDataAlt m) \<noteq> 0 then (Longitude (GeoDataAlt m), True)
     else (0, False))"

definition GetAltitude :: "Metadata \<Rightarrow> real \<times> bool" where
  "GetAltitude m =
    (if Altitude (GeoData m) \<noteq> 0 then (Altitude (GeoData m), True)
     else if Altitude (GeoDataAlt m) \<noteq> 0 then (Altitude (GeoDataAlt m), True)
     else (0, False))"

text \<open>
  The appliers read the coordinates through one nested test, the same in
  \<open>applyImageMetadataWithExiftool\<close> and in \<open>applyToVideo\<close>:
  \<^verbatim>\<open>if lat, latOk := meta.GetLatitude(); latOk {
    if lon, lonOk := meta.GetLongitude(); lonOk {
      ... if alt, altOk := meta.GetAltitude(); altOk { ... } } }\<close>
  \<open>gpsOf\<close> is the triple that this test hands to the external tool, \<open>None\<close> when
  no GPS argument is produced.
\<close>

definition gpsOf :: "Metadata \<Rightarrow> (real \<times> real \<times> real option) option" where
  "gpsOf m =
    (case GetLatitude m of
       (lat, latOk) \<Rightarrow>
         if latOk then
           (case GetLongitude m of
              (lon, lonOk) \<Rightarrow>
                if lonOk then
                  (case GetAltitude m of
                     (alt, altOk) \<Rightarrow> Some (lat, lon, if altOk then Some alt else None))
                else None)
         else None)"

section \<open>Errors\<close>

text \<open>
  Go errors as values. The first three are the errors of package \<open>os\<close>
  (\<open>os.Stat\<close>, \<open>os.ReadFile\<close>, \<open>os.Remove\<close>); \<open>Errorf\<close> is an error made by
  \<open>fmt.Errorf\<close> from a message, \<open>Wrapf\<close> one that wraps another error with \<open>%w\<close>.
\<close>

datatype error =
    ErrNotExist
  | ErrPermission
  | ErrOther string
  | Errorf string
  | Wrapf string error

text \<open>\<open>os.IsNotExist\<close> does not look through \<open>%w\<close> wrappers.\<close>

fun IsNotExist :: "error \<Rightarrow> bool" where
  "IsNotExist ErrNotExist = True"
| "IsNotExist _ = False"

subsection \<open>parseTimestamp and GetPhotoTime\<close>

text \<open>
  \<open>parseTimestamp\<close> reads the string with \<open>fmt.Sscanf(ts, "%d", &unixTime)\<close>. The
  library's scanner for the verb \<open>%d\<close> into an \<open>int64\<close> works as follows: it skips leading
  space runes (a newline is an error), fails at the end of input, accepts one optional sign,
  then requires one decimal digit and takes all digits that follow, and converts the token
  with \<open>strconv.ParseInt(tok, 10, 64)\<close>, which fails outside the \<open>int64\<close> range. Input
  left after the digits is not looked at. \<open>spaceWidth\<close> gives the number of bytes of a
  leading space rune other than newline (the table \<open>space\<close> of package \<open>fmt\<close>, in UTF-8),
  or 0.
\<close>

definition byte_in :: "char \<Rightarrow> nat \<Rightarrow> nat \<Rightarrow> bool" where
  "byte_in c lo hi = (lo \<le> (of_char c :: nat) \<and> (of_char c :: nat) \<le> hi)"

definition byte_is :: "char \<Rightarrow> nat \<Rightarrow> bool" where
  "byte_is c n = ((of_char c :: nat) = n)"

fun spaceWidth :: "string \<Rightarrow> nat" where
  "spaceWidth [] = 0"
| "spaceWidth (a # r) =
    (if byte_in a 0x09 0x0D \<or> byte_is a 0x20 then 1
     else if byte_is a 0xC2 then
       (case r of b # _ \<Rightarrow> if byte_is b 0x85 \<or> byte_is b 0xA0 then 2 else 0 | [] \<Rightarrow> 0)
     else if byte_is a 0xE1 then
       (case r of b # c # _ \<Rightarrow> if byte_is b 0x9A \<and> byte_is c 0x80 then 3 else 0 | _ \<Rightarrow> 0)
     else if byte_is a 0xE2 then
       (case r of b # c # _ \<Rightarrow>
          if (byte_is b 0x80 \<and> (byte_in c 0x80 0x8A \<or> byte_in c 0xA8 0xA9 \<or> byte_is c 0xAF))
             \<or> (byte_is b 0x81 \<and> byte_is c 0x9F) then 3 else 0
        | _ \<Rightarrow> 0)
     else if byte_is a 0xE3 then
       (case r of b # c # _ \<Rightarrow> if byte_is b 0x80 \<and> byte_is c 0x80 then 3 else 0 | _ \<Rightarrow> 0)
     else 0)"

function SkipSpace :: "string \<Rightarrow> error + string" where
  "SkipSpace s =
    (if s = [] then Inr s
     else if hd s = CHR 0x0A then Inl (Errorf ''unexpected newline'')
     else if spaceWidth s = 0 then Inr s
     else SkipSpace (drop (spaceWidth s) s))"
  by pat_completeness auto
termination
  by (relation "measure length") auto

declare SkipSpace.simps [simp del]

definition isDigit :: "char \<Rightarrow> bool" where
  "isDigit c = byte_in c 0x30 0x39"

definition digitsValue :: "string \<Rightarrow> int" where
  "digitsValue ds = foldl (\<lambda>acc c. 10 * acc + (of_char c - 0x30)) 0 ds"

definition Sscanf_d :: "string \<Rightarrow> error + int" where
  "Sscanf_d input =
    (case SkipSpace input of
       Inl e \<Rightarrow> Inl e
     | Inr s1 \<Rightarrow>
         if s1 = [] then Inl (Errorf ''unexpected EOF'')
         else
           let neg = (hd s1 = CHR ''-'');
               s2 = (if hd s1 = CHR ''+'' \<or> hd s1 = CHR ''-'' then tl s1 else s1);
               tok = takeWhile isDigit s2;
               n = (if neg then - digitsValue tok else digitsValue tok)
           in if s2 = [] then Inl (Errorf ''unexpected EOF'')
              else if tok = [] then Inl (Errorf ''expected integer'')
              else if n < - (2 ^ 63) \<or> 2 ^ 63 \<le> n then Inl (Errorf ''value out of range'')
              else Inr n)"

text \<open>An instant \<open>time.Unix(unixTime, 0).UTC()\<close> is identified with its Unix seconds.\<close>

type_synonym Time = int

definition parseTimestamp :: "string \<Rightarrow> error + Time" where
  "parseTimestamp ts =
    (case Sscanf_d ts of
       Inl err \<Rightarrow> Inl (Errorf (''invalid timestamp format: '' @ ts))
     | Inr unixTime \<Rightarrow> Inr unixTime)"

definition GetPhotoTime :: "Metadata \<Rightarrow> error + Time" where
  "GetPhotoTime m =
    (if Timestamp (PhotoTakenTime m) \<noteq> [] then parseTimestamp (Timestamp (PhotoTakenTime m))
     else if Timestamp (CreationTime m) \<noteq> [] then parseTimestamp (Timestamp (CreationTime m))
     else Inl (Errorf ''no valid timestamp found in metadata''))"

section \<open>Library functions used by the resolver\<close>

text \<open>
  The functions of packages \<open>strings\<close>, \<open>path/filepath\<close> and \<open>regexp\<close> that the
  resolver calls, on byte strings. \<open>filepath.Ext\<close> depends on the operating system's path
  separators: slash everywhere, and also backslash on Windows.
\<close>

datatype GOOS = windows | unix

definition backslash :: char where
  "backslash = CHR 0x5C"

definition IsPathSeparator :: "GOOS \<Rightarrow> char \<Rightarrow> bool" where
  "IsPathSeparator os c = (c = CHR ''/'' \<or> (os = windows \<and> c = backslash))"

text \<open>\<open>filepath.Ext\<close> walks back from the end of the path until a separator and returns
  the text from the first dot it meets; \<open>Ext_scan\<close> walks the reversed path and keeps the
  bytes already passed.\<close>

fun Ext_scan :: "GOOS \<Rightarrow> string \<Rightarrow> string \<Rightarrow> string" where
  "Ext_scan os [] passed = []"
| "Ext_scan os (c # front) passed =
    (if IsPathSeparator os c then []
     else if c = CHR ''.'' then c # passed
     else Ext_scan os front (c # passed))"

definition Ext :: "GOOS \<Rightarrow> string \<Rightarrow> string" where
  "Ext os path = Ext_scan os (rev path) []"

definition HasSuffix :: "string \<Rightarrow> string \<Rightarrow> bool" where
  "HasSuffix s suf = (length suf \<le> length s \<and> drop (length s - length suf) s = suf)"

definition TrimSuffix :: "string \<Rightarrow> string \<Rightarrow> string" where
  "TrimSuffix s suf = (if HasSuffix s suf then take (length s - length suf) s else s)"

text \<open>\<open>strings.LastIndex\<close>: the index of the last occurrence of \<open>substr\<close>, or \<open>-1\<close>.\<close>

definition LastIndex :: "string \<Rightarrow> string \<Rightarrow> int" where
  "LastIndex s substr =
    (case filter (\<lambda>i. take (length substr) (drop i s) = substr) (rev [0..<Suc (length s)]) of
       [] \<Rightarrow> - 1
     | i # _ \<Rightarrow> int i)"

text \<open>
  The regular expression \<open>\(\d+\)\<close>: an opening parenthesis, one or more ASCII digits, a
  closing parenthesis. \<open>matchLen s\<close> is the length of its match at the start of \<open>s\<close>, 0 when
  there is none. \<open>FindAllString\<close> (with \<open>n = -1\<close>) returns the successive leftmost matches,
  each search starting after the previous match; a match starts with an ASCII byte, so
  stepping byte by byte finds the same matches as stepping rune by rune.
\<close>

definition matchLen :: "string \<Rightarrow> nat" where
  "matchLen s =
    (case s of
       [] \<Rightarrow> 0
     | c # r \<Rightarrow>
         if c = CHR ''(''
         then (let k = length (takeWhile isDigit r)
               in if 0 < k \<and> take 1 (drop k r) = '')'' then k + 2 else 0)
         else 0)"

function FindAllString :: "string \<Rightarrow> string list" where
  "FindAllString s =
    (if s = [] then []
     else if matchLen s = 0 then FindAllString (tl s)
     else take (matchLen s) s # FindAllString (drop (matchLen s) s))"
  by pat_completeness auto
termination
  by (relation "measure length") auto

declare FindAllString.simps [simp del]

text \<open>\<open>strings.Replace(s, old, new, 1)\<close>: the first occurrence of \<open>old\<close> is replaced.\<close>

fun Replace1 :: "string \<Rightarrow> string \<Rightarrow> string \<Rightarrow> string" where
  "Replace1 [] old new = (if old = [] then new else [])"
| "Replace1 (c # cs) old new =
    (if take (length old) (c # cs) = old then new @ drop (length old) (c # cs)
     else c # Replace1 cs old new)"

text \<open>\<open>strings.ToLower\<close> on the bytes \<open>A\<close> to \<open>Z\<close>; other bytes are kept. (Go also lowers
  non-ASCII letters; every extension in the tables below is ASCII.)\<close>

definition lowerByte :: "char \<Rightarrow> char" where
  "lowerByte c = (if byte_in c 0x41 0x5A then char_of ((of_char c :: nat) + 32) else c)"

definition ToLower :: "string \<Rightarrow> string" where
  "ToLower s = map lowerByte s"

section \<open>Package processor: the sidecar resolver\<close>

record FileInfo =
  IsDir :: bool

text \<open>The result of \<open>os.Stat\<close>: the file's info, or the error.\<close>

type_synonym stat_result = "error + FileInfo"

definition statOK :: "stat_result \<Rightarrow> bool" where
  "statOK r = (case r of Inl _ \<Rightarrow> False | Inr _ \<Rightarrow> True)"

definition jsonSuffixes :: "string list" where
  "jsonSuffixes =
    ['''',
     ''.supplemental-metadata'',
     ''.supplemental-metadat'',
     ''.supplemental-metada'',
     ''.supplemental-metad'',
     ''.supplemental-meta'',
     ''.supplemental-met'',
     ''.supplemental-me'',
     ''.supplemental-m'',
     ''.supplemental-'',
     ''.supplemental'',
     ''.supplementa'',
     ''.supplement'',
     ''.supplemen'',
     ''.suppleme'',
     ''.supplem'',
     ''.supple'',
     ''.suppl'',
     ''.supp'',
     ''.sup'',
     ''.su'',
     ''.s'']"

text \<open>
  What \<open>checkSupplementalData\<close> returns: the triple (info, jsonPath, err) of the Go function,
  with info and err as one \<open>stat_result\<close>, and the list of paths it has given to
  \<open>os.Stat\<close>, in order.
\<close>

record resolution =
  result :: stat_result
  jsonPath :: string
  probes :: "string list"

text \<open>The duplicate-marker step (lines 182 to 200): the pair (newMediaPath, match).\<close>

definition dupNormalize :: "string \<Rightarrow> string \<times> string" where
  "dupNormalize mediaPath =
    (let idx = LastIndex mediaPath [backslash];
         matches = (if idx \<noteq> - 1 then FindAllString (drop (nat (idx + 1)) mediaPath) else [])
     in if length matches = 1
        then (let match = hd matches;
                  fileName = Replace1 (drop (nat (idx + 1)) mediaPath) match []
              in (take (nat (idx + 1)) mediaPath @ fileName, match))
        else (mediaPath, []))"

text \<open>The two loops over \<open>jsonSuffixes\<close>. The flag tells whether the loop has returned.\<close>

fun probeMarked ::
  "(string \<Rightarrow> stat_result) \<Rightarrow> string \<Rightarrow> string \<Rightarrow> string list \<Rightarrow> resolution \<Rightarrow> bool \<times> resolution" where
  "probeMarked stat newMediaPath match [] r = (False, r)"
| "probeMarked stat newMediaPath match (suffix # rest) r =
    (let suffix' = (if match \<noteq> [] then suffix @ match @ ''.json'' else suffix @ ''.json'');
         jp = newMediaPath @ suffix';
         r' = \<lparr>result = stat jp, jsonPath = jp, probes = probes r @ [jp]\<rparr>
     in if statOK (result r') then (True, r')
        else probeMarked stat newMediaPath match rest r')"

fun probePlain ::
  "(string \<Rightarrow> stat_result) \<Rightarrow> string \<Rightarrow> string list \<Rightarrow> resolution \<Rightarrow> bool \<times> resolution" where
  "probePlain stat newMediaPath [] r = (False, r)"
| "probePlain stat newMediaPath (suffix # rest) r =
    (let suffix' = suffix @ ''.json'';
         jp = newMediaPath @ suffix';
         r' = \<lparr>result = stat jp, jsonPath = jp, probes = probes r @ [jp]\<rparr>
     in if statOK (result r') then (True, r')
        else probePlain stat newMediaPath rest r')"

definition checkSupplementalData :: "GOOS \<Rightarrow> (string \<Rightarrow> stat_result) \<Rightarrow> string \<Rightarrow> resolution" where
  "checkSupplementalData os stat mediaPath =
    (let ext = Ext os mediaPath;
         jp0 = TrimSuffix mediaPath ext @ ''.json'';
         r0 = \<lparr>result = stat jp0, jsonPath = jp0, probes = [jp0]\<rparr>
     in if statOK (result r0) then r0
        else
          (case dupNormalize mediaPath of
             (newMediaPath, match) \<Rightarrow>
               (case probeMarked stat newMediaPath match jsonSuffixes r0 of
                  (True, r1) \<Rightarrow> r1
                | (False, r1) \<Rightarrow> snd (probePlain stat mediaPath jsonSuffixes r1))))"

section \<open>The outside world\<close>

text \<open>
  Everything the program asks of the operating system and of libraries outside the
  repository, as seen during the processing of one media file: the file system calls, the
  JSON decoder \<open>json.Unmarshal\<close> into a fresh \<open>Metadata\<close>, the path functions
  \<open>filepath.Dir\<close>, \<open>filepath.Base\<close> and \<open>filepath.Join\<close>, and the two appliers, which run
  the external tools \<open>exiftool\<close> and \<open>ffmpeg\<close>.
\<close>

type_synonym bytes = "8 word list"

record ApplyResult =
  Modified :: bool
  Details :: string
  ExistingData :: string
  NewData :: string

record Env =
  goos :: GOOS
  Stat :: "string \<Rightarrow> stat_result"
  ReadFile :: "string \<Rightarrow> error + bytes"
  Remove :: "string \<Rightarrow> error option"
  Unmarshal :: "bytes \<Rightarrow> error + Metadata"
  Dir :: "string \<Rightarrow> string"
  Base :: "string \<Rightarrow> string"
  Join :: "string \<Rightarrow> string \<Rightarrow> string"
  applyToImage :: "string \<Rightarrow> Metadata \<Rightarrow> error + ApplyResult"
  applyToVideo :: "string \<Rightarrow> Metadata \<Rightarrow> error + ApplyResult"

section \<open>Package metadata: reading sidecars\<close>

definition stripBOM :: "bytes \<Rightarrow> bytes" where
  "stripBOM data =
    (if 3 \<le> length data \<and> data ! 0 = 0xEF \<and> data ! 1 = 0xBB \<and> data ! 2 = 0xBF
     then drop 3 data else data)"

definition parseSupplementalJSON :: "Env \<Rightarrow> string \<Rightarrow> error + Metadata" where
  "parseSupplementalJSON env path =
    (case ReadFile env path of
       Inl err \<Rightarrow> Inl (Wrapf ''failed to read JSON file'' err)
     | Inr data \<Rightarrow>
         (case Unmarshal env (stripBOM data) of
            Inl err \<Rightarrow> Inl (Wrapf ''failed to unmarshal JSON'' err)
          | Inr meta \<Rightarrow> Inr meta))"

text \<open>The two supplemental layers of \<open>ParseJSON\<close>: each is merged only when \<open>os.Stat\<close>
  finds the file and the file decodes.\<close>

definition globalPath :: "Env \<Rightarrow> string \<Rightarrow> string" where
  "globalPath env path = Join env (Dir env path) ''supplemental-metadata.json''"

definition perFilePath :: "Env \<Rightarrow> string \<Rightarrow> string" where
  "perFilePath env path =
     Join env (Dir env path) (TrimSuffix (Base env path) ''.json'' @ ''.supplemental-metadata.json'')"

definition mergeLayer :: "Env \<Rightarrow> string \<Rightarrow> Metadata \<Rightarrow> Metadata" where
  "mergeLayer env supplementalPath meta =
    (case Stat env supplementalPath of
       Inl _ \<Rightarrow> meta
     | Inr _ \<Rightarrow>
         (case parseSupplementalJSON env supplementalPath of
            Inl _ \<Rightarrow> meta
          | Inr supplemental \<Rightarrow> mergeMetadata meta supplemental))"

definition ParseJSON :: "Env \<Rightarrow> string \<Rightarrow> error + Metadata" where
  "ParseJSON env path =
    (case ReadFile env path of
       Inl err \<Rightarrow> Inl (Wrapf ''failed to read JSON file'' err)
     | Inr data \<Rightarrow>
         (case Unmarshal env (stripBOM data) of
            Inl err \<Rightarrow> Inl (Wrapf ''failed to unmarshal JSON'' err)
          | Inr meta \<Rightarrow>
              Inr (mergeLayer env (perFilePath env path)
                     (mergeLayer env (globalPath env path) meta))))"

section \<open>Package metadata: choosing the applier\<close>

definition imageExts :: "string list" where
  "imageExts = [''.jpg'', ''.jpeg'', ''.png'', ''.gif'', ''.bmp'', ''.webp'', ''.tiff'', ''.tif'',
                ''.heic'', ''.heif'']"

definition videoExts :: "string list" where
  "videoExts = [''.mp4'', ''.avi'', ''.mov'', ''.mkv'', ''.flv'', ''.wmv'', ''.webm'', ''.m4v'',
                ''.3gp'', ''.ogv'', ''.ts'', ''.mts'', ''.m2ts'']"

definition isImageFile :: "GOOS \<Rightarrow> string \<Rightarrow> bool" where
  "isImageFile os path = (ToLower (Ext os path) \<in> set imageExts)"

definition isVideoFile :: "GOOS \<Rightarrow> string \<Rightarrow> bool" where
  "isVideoFile os path = (ToLower (Ext os path) \<in> set videoExts)"

definition ApplyToFile :: "Env \<Rightarrow> string \<Rightarrow> Metadata \<Rightarrow> error + ApplyResult" where
  "ApplyToFile env mediaPath meta =
    (if isImageFile (goos env) mediaPath then applyToImage env mediaPath meta
     else if isVideoFile (goos env) mediaPath then applyToVideo env mediaPath meta
     else Inl (Errorf (''unsupported media file type: '' @ Ext (goos env) mediaPath)))"

section \<open>Package processor: processing one media file\<close>

text \<open>The extension tables of \<open>isSupportedMediaFile\<close>, which the directory walk uses to
  pick the media files.\<close>

definition supportedImageExts :: "string list" where
  "supportedImageExts = [''.jpg'', ''.jpeg'', ''.png'', ''.gif'', ''.bmp'', ''.webp'', ''.tiff'',
                         ''.tif'', ''.heic'', ''.heif'', ''.dng'']"

definition supportedVideoExts :: "string list" where
  "supportedVideoExts = [''.mp4'', ''.avi'', ''.mov'', ''.mkv'', ''.flv'', ''.wmv'', ''.webm'',
                         ''.m4v'', ''.3gp'', ''.ogv'', ''.ts'', ''.mts'', ''.m2ts'']"

definition isSupportedMediaFile :: "GOOS \<Rightarrow> string \<Rightarrow> bool" where
  "isSupportedMediaFile os path =
    (let ext = ToLower (Ext os path)
     in if ext \<in> set supportedImageExts \<or> ext \<in> set supportedVideoExts then True else False)"

text \<open>The counters are Go \<open>int\<close>s; no run comes near their bound.\<close>

record Statistics =
  TotalFiles :: int
  JSONFiles :: int
  ProcessedFiles :: int
  ModifiedFiles :: int
  UnmodifiedFiles :: int
  SkippedFiles :: int
  ErrorCount :: int
  ModifiedDetails :: "string list"
  UnmodifiedDetails :: "string list"

text \<open>The lines the program prints, one constructor for each \<open>Printf\<close> of
  \<open>processMediaFile\<close>, with its arguments.\<close>

datatype printed =
    SKIP_no_metadata string
  | ERROR_cannot_access string error
  | SKIP_directory string
  | ERROR_parse string error
  | DRY_RUN_would_apply string
  | DRY_RUN_metadata Metadata
  | DRY_RUN_would_delete string
  | ERROR_apply string error
  | OK_modified string
  | Previous string
  | Updated string
  | SKIP_up_to_date string
  | Verified string
  | WARN_delete_failed string error
  | Deleted string

text \<open>The processor: its settings, the statistics, the map \<open>deletedFiles\<close> (a missing key
  reads as false) and what has been printed so far.\<close>

record Processor =
  rootDir :: string
  dryRun :: bool
  verbose :: bool
  stats :: Statistics
  deletedFiles :: "string \<Rightarrow> bool"
  workerCount :: int
  stdout :: "printed list"

definition say :: "printed \<Rightarrow> Processor \<Rightarrow> Processor" where
  "say line p = p\<lparr>stdout := stdout p @ [line]\<rparr>"

definition sayIf :: "bool \<Rightarrow> printed \<Rightarrow> Processor \<Rightarrow> Processor" where
  "sayIf c line p = (if c then say line p else p)"

definition countError :: "Processor \<Rightarrow> Processor" where
  "countError p = p\<lparr>stats := (stats p)\<lparr>ErrorCount := ErrorCount (stats p) + 1\<rparr>\<rparr>"

text \<open>Lines 331 to 357: the counters after a successful \<open>ApplyToFile\<close>.\<close>

definition recordApplied :: "string \<Rightarrow> ApplyResult \<Rightarrow> Processor \<Rightarrow> Processor" where
  "recordApplied mediaPath res p =
    (let p1 = p\<lparr>stats := (stats p)\<lparr>ProcessedFiles := ProcessedFiles (stats p) + 1\<rparr>\<rparr>
     in if Modified res then
          (let detail0 = ''  '' @ Details res;
               detail = (if NewData res \<noteq> [] then detail0 @ [CHR 0x0A] @ ''    Modified: '' @ NewData res
                         else detail0);
               p2 = p1\<lparr>stats := (stats p1)\<lparr>ModifiedFiles := ModifiedFiles (stats p1) + 1,
                                           ModifiedDetails := ModifiedDetails (stats p1) @ [detail]\<rparr>\<rparr>;
               p3 = say (OK_modified mediaPath) p2
           in if verbose p \<and> ExistingData res \<noteq> []
              then say (Updated (NewData res)) (say (Previous (ExistingData res)) p3)
              else p3)
        else
          (let detail0 = ''  '' @ Details res;
               detail = (if ExistingData res \<noteq> [] then detail0 @ [CHR 0x0A] @ ''    Verified: '' @ ExistingData res
                         else detail0);
               p2 = p1\<lparr>stats := (stats p1)\<lparr>UnmodifiedFiles := UnmodifiedFiles (stats p1) + 1,
                                           UnmodifiedDetails := UnmodifiedDetails (stats p1) @ [detail]\<rparr>\<rparr>;
               p3 = say (SKIP_up_to_date mediaPath) p2
           in if verbose p \<and> ExistingData res \<noteq> []
              then say (Verified (ExistingData res)) p3
              else p3))"

text \<open>Lines 359 to 372: the sidecar is deleted; the function then returns true.\<close>

definition deleteSidecar :: "Env \<Rightarrow> string \<Rightarrow> Processor \<Rightarrow> Processor" where
  "deleteSidecar env path p =
    (case Remove env path of
       Some err \<Rightarrow> say (WARN_delete_failed path err) p
     | None \<Rightarrow>
         sayIf (verbose p) (Deleted path) (p\<lparr>deletedFiles := (deletedFiles p)(path := True)\<rparr>))"

text \<open>Lines 307 to 320: the dry run.\<close>

definition dryRunReport :: "Env \<Rightarrow> string \<Rightarrow> string \<Rightarrow> Metadata \<Rightarrow> Processor \<Rightarrow> Processor" where
  "dryRunReport env mediaPath path meta p =
    (let p1 = say (DRY_RUN_would_apply mediaPath) p;
         p2 = (if verbose p then say (DRY_RUN_would_delete path) (say (DRY_RUN_metadata meta) p1)
               else p1);
         detail = ''  '' @ Base env mediaPath @ '' (would be modified)''
     in p2\<lparr>stats := (stats p2)\<lparr>ProcessedFiles := ProcessedFiles (stats p2) + 1,
                                 ModifiedFiles := ModifiedFiles (stats p2) + 1,
                                 ModifiedDetails := ModifiedDetails (stats p2) @ [detail]\<rparr>\<rparr>)"

text \<open>\<open>processMediaFile\<close> returns its boolean and the processor as it has left it.\<close>

definition processMediaFile :: "Env \<Rightarrow> Processor \<Rightarrow> string \<Rightarrow> bool \<times> Processor" where
  "processMediaFile env p mediaPath =
    (let r = checkSupplementalData (goos env) (Stat env) mediaPath
     in case result r of
          Inl err \<Rightarrow>
            if IsNotExist err then (False, sayIf (verbose p) (SKIP_no_metadata mediaPath) p)
            else (False, say (ERROR_cannot_access (jsonPath r) err) (countError p))
        | Inr info \<Rightarrow>
            if IsDir info then (False, sayIf (verbose p) (SKIP_directory (jsonPath r)) p)
            else
              (case ParseJSON env (jsonPath r) of
                 Inl err \<Rightarrow> (False, say (ERROR_parse (jsonPath r) err) (countError p))
               | Inr meta \<Rightarrow>
                   (let p1 = p\<lparr>stats := (stats p)\<lparr>JSONFiles := JSONFiles (stats p) + 1\<rparr>\<rparr>
                    in if dryRun p then (True, dryRunReport env mediaPath (jsonPath r) meta p1)
                       else
                         (case ApplyToFile env mediaPath meta of
                            Inl err \<Rightarrow> (False, say (ERROR_apply mediaPath err) (countError p1))
                          | Inr res \<Rightarrow>
                              (True, deleteSidecar env (jsonPath r)
                                       (recordApplied mediaPath res p1))))))"

text \<open>\<open>New\<close>: a fresh processor; the first argument is \<open>runtime.NumCPU()\<close>.\<close>

definition zeroStatistics :: Statistics where
  "zeroStatistics = \<lparr>TotalFiles = 0, JSONFiles = 0, ProcessedFiles = 0, ModifiedFiles = 0,
     UnmodifiedFiles = 0, SkippedFiles = 0, ErrorCount = 0, ModifiedDetails = [],
     UnmodifiedDetails = []\<rparr>"

definition New :: "int \<Rightarrow> string \<Rightarrow> bool \<Rightarrow> bool \<Rightarrow> Processor" where
  "New numCPU dir dry verb =
    \<lparr>rootDir = dir, dryRun = dry, verbose = verb, stats = zeroStatistics,
     deletedFiles = (\<lambda>_. False),
     workerCount = (if numCPU < 2 then 2 else numCPU),
     stdout = []\<rparr>"

section \<open>Notions used in the statements\<close>

text \<open>A GPS fix counts as present when its latitude or its longitude is not zero: the test
  of \<open>mergeMetadata\<close> on a whole fix.\<close>

definition hasFix :: "GeoData \<Rightarrow> bool" where
  "hasFix g = (Latitude g \<noteq> 0 \<or> Longitude g \<noteq> 0)"

text \<open>The first of two numbers that is not zero, and the same as an optional value.\<close>

definition firstNonZero :: "real \<Rightarrow> real \<Rightarrow> real" where
  "firstNonZero a b = (if a \<noteq> 0 then a else b)"

definition firstNonZeroOpt :: "real \<Rightarrow> real \<Rightarrow> real option" where
  "firstNonZeroOpt a b = (if a \<noteq> 0 then Some a else if b \<noteq> 0 then Some b else None)"

text \<open>
  The resolver's candidate paths in the order of the code: the extension swap, then for
  every entry of \<open>jsonSuffixes\<close> the normalized path with the suffix, the removed marker and
  \<open>.json\<close>, then for every entry the original path with the suffix and \<open>.json\<close>.
  \<open>uptoFirstOK\<close> cuts a list of candidates after the first one that \<open>os.Stat\<close> accepts.
\<close>

definition candidates :: "GOOS \<Rightarrow> string \<Rightarrow> string list" where
  "candidates os mediaPath =
    (TrimSuffix mediaPath (Ext os mediaPath) @ ''.json'') #
    map (\<lambda>suffix. fst (dupNormalize mediaPath) @ suffix @ snd (dupNormalize mediaPath) @ ''.json'')
        jsonSuffixes @
    map (\<lambda>suffix. mediaPath @ suffix @ ''.json'') jsonSuffixes"

fun uptoFirstOK :: "(string \<Rightarrow> stat_result) \<Rightarrow> string list \<Rightarrow> string list" where
  "uptoFirstOK stat [] = []"
| "uptoFirstOK stat (c # cs) = (if statOK (stat c) then [c] else c # uptoFirstOK stat cs)"

text \<open>The order of suffixes as the specification words it: the full literal, then each
  shorter truncation down to \<open>.s\<close>, and the empty suffix last.\<close>

definition specSuffixOrder :: "string list" where
  "specSuffixOrder = map (\<lambda>n. take n ''.supplemental-metadata'') (rev [2..<23]) @ ['''']"

section \<open>Example inputs\<close>

definition noStamp :: TimeField where
  "noStamp = \<lparr>Timestamp = []\<rparr>"

text \<open>A supplemental record that carries only a modification timestamp.\<close>

definition modifiedOnly :: Metadata where
  "modifiedOnly = Metadata [] [] 0 noStamp \<lparr>Timestamp = ''1609459200''\<rparr>
     zeroGeoData zeroGeoData noStamp None"

text \<open>A primary record with gaps, and a supplemental record with every field set.\<close>

definition gappyPrimary :: Metadata where
  "gappyPrimary = Metadata ''a.jpg'' [] 0 noStamp noStamp
     zeroGeoData
     \<lparr>Latitude = 1, Longitude = 2, Altitude = 0, LatitudeSpan = 0, LongitudeSpan = 0\<rparr>
     \<lparr>Timestamp = ''100''\<rparr> None"

definition fullSupplemental :: Metadata where
  "fullSupplemental = Metadata ''b.jpg'' ''beach'' 3 \<lparr>Timestamp = ''50''\<rparr> \<lparr>Timestamp = ''60''\<rparr>
     \<lparr>Latitude = 3, Longitude = 4, Altitude = 5, LatitudeSpan = 0, LongitudeSpan = 0\<rparr>
     \<lparr>Latitude = 9, Longitude = 9, Altitude = 9, LatitudeSpan = 0, LongitudeSpan = 0\<rparr>
     \<lparr>Timestamp = ''70''\<rparr> None"

text \<open>A record whose primary fix has only a longitude, next to a complete alternate fix.\<close>

definition mixedFixes :: Metadata where
  "mixedFixes = Metadata [] [] 0 noStamp noStamp
     \<lparr>Latitude = 0, Longitude = 5, Altitude = 0, LatitudeSpan = 0, LongitudeSpan = 0\<rparr>
     \<lparr>Latitude = 7, Longitude = 8, Altitude = 0, LatitudeSpan = 0, LongitudeSpan = 0\<rparr>
     noStamp None"

text \<open>A record whose photo-taken timestamp is a number followed by letters.\<close>

definition trailingLetters :: Metadata where
  "trailingLetters = Metadata [] [] 0 noStamp noStamp zeroGeoData zeroGeoData
     \<lparr>Timestamp = ''12abc''\<rparr> None"

text \<open>A file system given by the list of its files: \<open>os.Stat\<close> on it.\<close>

definition statIn :: "string list \<Rightarrow> string \<Rightarrow> stat_result" where
  "statIn files path = (if path \<in> set files then Inr \<lparr>IsDir = False\<rparr> else Inl ErrNotExist)"

text \<open>
  A small world on a Unix system: files with their contents; a decoder that accepts
  exactly the documents starting with an opening brace and yields one fixed record; path
  functions for paths of the form directory, slash, name; appliers that always report a
  modification; and a fixed answer of \<open>os.Remove\<close>.
\<close>

definition decoded :: Metadata where
  "decoded = Metadata ''a.jpg'' [] 0 noStamp noStamp zeroGeoData zeroGeoData
     \<lparr>Timestamp = ''1609459200''\<rparr> None"

definition toyUnmarshal :: "bytes \<Rightarrow> error + Metadata" where
  "toyUnmarshal data =
    (if take 1 data = [0x7B] then Inr decoded else Inl (ErrOther ''invalid character''))"

definition slashAt :: "string \<Rightarrow> nat" where
  "slashAt path = nat (LastIndex path ''/'' + 1)"

definition applied :: "string \<Rightarrow> Metadata \<Rightarrow> error + ApplyResult" where
  "applied path meta =
     Inr \<lparr>Modified = True, Details = path, ExistingData = [], NewData = ''DateTime=set''\<rparr>"

definition toyEnv :: "(string \<times> bytes) list \<Rightarrow> error option \<Rightarrow> Env" where
  "toyEnv files removal =
    \<lparr>goos = unix,
     Stat = statIn (map fst files),
     ReadFile = (\<lambda>path. case map_of files path of None \<Rightarrow> Inl ErrNotExist | Some data \<Rightarrow> Inr data),
     Remove = (\<lambda>path. removal),
     Unmarshal = toyUnmarshal,
     Dir = (\<lambda>path. take (slashAt path - 1) path),
     Base = (\<lambda>path. drop (slashAt path) path),
     Join = (\<lambda>dir name. dir @ ''/'' @ name),
     applyToImage = applied,
     applyToVideo = applied\<rparr>"

text \<open>A folder with one photo and its sidecar, and one where a malformed global
  supplemental sidecar lies beside them.\<close>

definition plainFolder :: "(string \<times> bytes) list" where
  "plainFolder = [(''/takeout/a.json'', [0x7B, 0x7D])]"

definition brokenGlobalFolder :: "(string \<times> bytes) list" where
  "brokenGlobalFolder =
     [(''/takeout/a.json'', [0x7B, 0x7D]), (''/takeout/supplemental-metadata.json'', [0x3F])]"

definition quietProcessor :: Processor where
  "quietProcessor = New 4 ''/takeout'' False False"

text \<open>A Windows path with a duplicate marker in its file name.\<close>

definition winDuplicate :: string where
  "winDuplicate = ''C:'' @ [backslash] @ ''Takeout'' @ [backslash] @ ''IMG(2).jpg''"

section \<open>Properties of the record model\<close>

subsection \<open>Field assignments\<close>

lemma set_Title_sel [simp]:
  "Title (set_Title v m) = v" "Description (set_Title v m) = Description m"
  "ImageViews (set_Title v m) = ImageViews m" "CreationTime (set_Title v m) = CreationTime m"
  "ModificationTime (set_Title v m) = ModificationTime m" "GeoData (set_Title v m) = GeoData m"
  "GeoDataAlt (set_Title v m) = GeoDataAlt m" "PhotoTakenTime (set_Title v m) = PhotoTakenTime m"
  "Supplemental (set_Title v m) = Supplemental m"
  by (cases m; simp)+

lemma set_Description_sel [simp]:
  "Title (set_Description v m) = Title m" "Description (set_Description v m) = v"
  "ImageViews (set_Description v m) = ImageViews m" "CreationTime (set_Description v m) = CreationTime m"
  "ModificationTime (set_Description v m) = ModificationTime m" "GeoData (set_Description v m) = GeoData m"
  "GeoDataAlt (set_Description v m) = GeoDataAlt m" "PhotoTakenTime (set_Description v m) = PhotoTakenTime m"
  "Supplemental (set_Description v m) = Supplemental m"
  by (cases m; simp)+

lemma set_ImageViews_sel [simp]:
  "Title (set_ImageViews v m) = Title m" "Description (set_ImageViews v m) = Description m"
  "ImageViews (set_ImageViews v m) = v" "CreationTime (set_ImageViews v m) = CreationTime m"
  "ModificationTime (set_ImageViews v m) = ModificationTime m" "GeoData (set_ImageViews v m) = GeoData m"
  "GeoDataAlt (set_ImageViews v m) = GeoDataAlt m" "PhotoTakenTime (set_ImageViews v m) = PhotoTakenTime m"
  "Supplemental (set_ImageViews v m) = Supplemental m"
  by (cases m; simp)+

lemma set_CreationTime_sel [simp]:
  "Title (set_CreationTime v m) = Title m" "Description (set_CreationTime v m) = Description m"
  "ImageViews (set_CreationTime v m) = ImageViews m" "CreationTime (set_CreationTime v m) = v"
  "ModificationTime (set_CreationTime v m) = ModificationTime m" "GeoData (set_CreationTime v m) = GeoData m"
  "GeoDataAlt (set_CreationTime v m) = GeoDataAlt m" "PhotoTakenTime (set_CreationTime v m) = PhotoTakenTime m"
  "Supplemental (set_CreationTime v m) = Supplemental m"
  by (cases m; simp)+

lemma set_PhotoTakenTime_sel [simp]:
  "Title (set_PhotoTakenTime v m) = Title m" "Description (set_PhotoTakenTime v m) = Description m"
  "ImageViews (set_PhotoTakenTime v m) = ImageViews m" "CreationTime (set_PhotoTakenTime v m) = CreationTime m"
  "ModificationTime (set_PhotoTakenTime v m) = ModificationTime m" "GeoData (set_PhotoTakenTime v m) = GeoData m"
  "GeoDataAlt (set_PhotoTakenTime v m) = GeoDataAlt m" "PhotoTakenTime (set_PhotoTakenTime v m) = v"
  "Supplemental (set_PhotoTakenTime v m) = Supplemental m"
  by (cases m; simp)+

lemma set_GeoData_sel [simp]:
  "Title (set_GeoData v m) = Title m" "Description (set_GeoData v m) = Description m"
  "ImageViews (set_GeoData v m) = ImageViews m" "CreationTime (set_GeoData v m) = CreationTime m"
  "ModificationTime (set_GeoData v m) = ModificationTime m" "GeoData (set_GeoData v m) = v"
  "GeoDataAlt (set_GeoData v m) = GeoDataAlt m" "PhotoTakenTime (set_GeoData v m) = PhotoTakenTime m"
  "Supplemental (set_GeoData v m) = Supplemental m"
  by (cases m; simp)+

lemma set_GeoDataAlt_sel [simp]:
  "Title (set_GeoDataAlt v m) = Title m" "Description (set_GeoDataAlt v m) = Description m"
  "ImageViews (set_GeoDataAlt v m) = ImageViews m" "CreationTime (set_GeoDataAlt v m) = CreationTime m"
  "ModificationTime (set_GeoDataAlt v m) = ModificationTime m" "GeoData (set_GeoDataAlt v m) = GeoData m"
  "GeoDataAlt (set_GeoDataAlt v m) = v" "PhotoTakenTime (set_GeoDataAlt v m) = PhotoTakenTime m"
  "Supplemental (set_GeoDataAlt v m) = Supplemental m"
  by (cases m; simp)+

lemma guarded_set_Title [simp]:
  "Title (if c then set_Title v m else m) = (if c then v else Title m)"
  "Description (if c then set_Title v m else m) = Description m"
  "ImageViews (if c then set_Title v m else m) = ImageViews m"
  "CreationTime (if c then set_Title v m else m) = CreationTime m"
  "ModificationTime (if c then set_Title v m else m) = ModificationTime m"
  "GeoData (if c then set_Title v m else m) = GeoData m"
  "GeoDataAlt (if c then set_Title v m else m) = GeoDataAlt m"
  "PhotoTakenTime (if c then set_Title v m else m) = PhotoTakenTime m"
  "Supplemental (if c then set_Title v m else m) = Supplemental m"
  by simp_all

lemma guarded_set_Description [simp]:
  "Title (if c then set_Description v m else m) = Title m"
  "Description (if c then set_Description v m else m) = (if c then v else Description m)"
  "ImageViews (if c then set_Description v m else m) = ImageViews m"
  "CreationTime (if c then set_Description v m else m) = CreationTime m"
  "ModificationTime (if c then set_Description v m else m) = ModificationTime m"
  "GeoData (if c then set_Description v m else m) = GeoData m"
  "GeoDataAlt (if c then set_Description v m else m) = GeoDataAlt m"
  "PhotoTakenTime (if c then set_Description v m else m) = PhotoTakenTime m"
  "Supplemental (if c then set_Description v m else m) = Supplemental m"
  by simp_all

lemma guarded_set_ImageViews [simp]:
  "Title (if c then set_ImageViews v m else m) = Title m"
  "Description (if c then set_ImageViews v m else m) = Description m"
  "ImageViews (if c then set_ImageViews v m else m) = (if c then v else ImageViews m)"
  "CreationTime (if c then set_ImageViews v m else m) = CreationTime m"
  "ModificationTime (if c then set_ImageViews v m else m) = ModificationTime m"
  "GeoData (if c then set_ImageViews v m else m) = GeoData m"
  "GeoDataAlt (if c then set_ImageViews v m else m) = GeoDataAlt m"
  "PhotoTakenTime (if c then set_ImageViews v m else m) = PhotoTakenTime m"
  "Supplemental (if c then set_ImageViews v m else m) = Supplemental m"
  by simp_all

lemma guarded_set_CreationTime [simp]:
  "Title (if c then set_CreationTime v m else m) = Title m"
  "Description (if c then set_CreationTime v m else m) = Description m"
  "ImageViews (if c then set_CreationTime v m else m) = ImageViews m"
  "CreationTime (if c then set_CreationTime v m else m) = (if c then v else CreationTime m)"
  "ModificationTime (if c then set_CreationTime v m else m) = ModificationTime m"
  "GeoData (if c then set_CreationTime v m else m) = GeoData m"
  "GeoDataAlt (if c then set_CreationTime v m else m) = GeoDataAlt m"
  "PhotoTakenTime (if c then set_CreationTime v m else m) = PhotoTakenTime m"
  "Supplemental (if c then set_CreationTime v m else m) = Supplemental m"
  by simp_all

lemma guarded_set_GeoData [simp]:
  "Title (if c then set_GeoData v m else m) = Title m"
  "Description (if c then set_GeoData v m else m) = Description m"
  "ImageViews (if c then set_GeoData v m else m) = ImageViews m"
  "CreationTime (if c then set_GeoData v m else m) = CreationTime m"
  "ModificationTime (if c then set_GeoData v m else m) = ModificationTime m"
  "GeoData (if c then set_GeoData v m else m) = (if c then v else GeoData m)"
  "GeoDataAlt (if c then set_GeoData v m else m) = GeoDataAlt m"
  "PhotoTakenTime (if c then set_GeoData v m else m) = PhotoTakenTime m"
  "Supplemental (if c then set_GeoData v m else m) = Supplemental m"
  by simp_all

lemma guarded_set_GeoDataAlt [simp]:
  "Title (if c then set_GeoDataAlt v m else m) = Title m"
  "Description (if c then set_GeoDataAlt v m else m) = Description m"
  "ImageViews (if c then set_GeoDataAlt v m else m) = ImageViews m"
  "CreationTime (if c then set_GeoDataAlt v m else m) = CreationTime m"
  "ModificationTime (if c then set_GeoDataAlt v m else m) = ModificationTime m"
  "GeoData (if c then set_GeoDataAlt v m else m) = GeoData m"
  "GeoDataAlt (if c then set_GeoDataAlt v m else m) = (if c then v else GeoDataAlt m)"
  "PhotoTakenTime (if c then set_GeoDataAlt v m else m) = PhotoTakenTime m"
  "Supplemental (if c then set_GeoDataAlt v m else m) = Supplemental m"
  by simp_all

lemma guarded_set_PhotoTakenTime [simp]:
  "Title (if c then set_PhotoTakenTime v m else m) = Title m"
  "Description (if c then set_PhotoTakenTime v m else m) = Description m"
  "ImageViews (if c then set_PhotoTakenTime v m else m) = ImageViews m"
  "CreationTime (if c then set_PhotoTakenTime v m else m) = CreationTime m"
  "ModificationTime (if c then set_PhotoTakenTime v m else m) = ModificationTime m"
  "GeoData (if c then set_PhotoTakenTime v m else m) = GeoData m"
  "GeoDataAlt (if c then set_PhotoTakenTime v m else m) = GeoDataAlt m"
  "PhotoTakenTime (if c then set_PhotoTakenTime v m else m) = (if c then v else PhotoTakenTime m)"
  "Supplemental (if c then set_PhotoTakenTime v m else m) = Supplemental m"
  by simp_all

subsection \<open>mergeMetadata, field by field\<close>

lemma mergeMetadata_Title:
  "Title (mergeMetadata p s) = (if Title p = [] then Title s else Title p)"
  by (simp add: mergeMetadata_def Let_def)

lemma mergeMetadata_Description:
  "Description (mergeMetadata p s) = (if Description p = [] then Description s else Description p)"
  by (simp add: mergeMetadata_def Let_def)

lemma mergeMetadata_ImageViews:
  "ImageViews (mergeMetadata p s) =
     (if ImageViews p = 0 \<and> 0 <s ImageViews s then ImageViews s else ImageViews p)"
  by (simp add: mergeMetadata_def Let_def)

lemma mergeMetadata_CreationTime:
  "CreationTime (mergeMetadata p s) =
     (if Timestamp (CreationTime p) = [] then CreationTime s else CreationTime p)"
  by (simp add: mergeMetadata_def Let_def)

lemma mergeMetadata_PhotoTakenTime:
  "PhotoTakenTime (mergeMetadata p s) =
     (if Timestamp (PhotoTakenTime p) = [] then PhotoTakenTime s else PhotoTakenTime p)"
  by (simp add: mergeMetadata_def Let_def)

lemma mergeMetadata_ModificationTime:
  "ModificationTime (mergeMetadata p s) = ModificationTime p"
  by (simp add: mergeMetadata_def Let_def)

lemma mergeMetadata_GeoData:
  "GeoData (mergeMetadata p s) =
     (if \<not> hasFix (GeoData p) \<and> hasFix (GeoData s) then GeoData s else GeoData p)"
  by (auto simp add: mergeMetadata_def Let_def hasFix_def)

lemma mergeMetadata_GeoDataAlt:
  "GeoDataAlt (mergeMetadata p s) =
     (if \<not> hasFix (GeoDataAlt p) \<and> hasFix (GeoDataAlt s) then GeoDataAlt s else GeoDataAlt p)"
  by (auto simp add: mergeMetadata_def Let_def hasFix_def)

lemma mergeMetadata_Supplemental:
  "Supplemental (mergeMetadata p s) = Supplemental p"
  by (simp add: mergeMetadata_def Let_def)

text \<open>
  Claim C3, as amended. Merge keeps every field that the primary has, and fills a field that
  the primary lacks from the supplemental, for the title, the description, the view count
  (when the supplemental's count is positive), the creation timestamp, the photo-taken
  timestamp and each GPS fix; a GPS fix is taken over as a whole, and only when the primary's
  fix is absent (latitude and longitude both zero) and the supplemental's is present. The
  modification timestamp and the \<open>Supplemental\<close> pointer always stay the primary's.
\<close>

theorem mergeMetadata_fills_gaps:
  "Title (mergeMetadata p s) = (if Title p = [] then Title s else Title p) \<and>
   Description (mergeMetadata p s) = (if Description p = [] then Description s else Description p) \<and>
   ImageViews (mergeMetadata p s) =
     (if ImageViews p = 0 \<and> 0 <s ImageViews s then ImageViews s else ImageViews p) \<and>
   CreationTime (mergeMetadata p s) =
     (if Timestamp (CreationTime p) = [] then CreationTime s else CreationTime p) \<and>
   PhotoTakenTime (mergeMetadata p s) =
     (if Timestamp (PhotoTakenTime p) = [] then PhotoTakenTime s else PhotoTakenTime p) \<and>
   ModificationTime (mergeMetadata p s) = ModificationTime p \<and>
   GeoData (mergeMetadata p s) =
     (if \<not> hasFix (GeoData p) \<and> hasFix (GeoData s) then GeoData s else GeoData p) \<and>
   GeoDataAlt (mergeMetadata p s) =
     (if \<not> hasFix (GeoDataAlt p) \<and> hasFix (GeoDataAlt s) then GeoDataAlt s else GeoDataAlt p) \<and>
   Supplemental (mergeMetadata p s) = Supplemental p"
  by (simp only: mergeMetadata_Title mergeMetadata_Description mergeMetadata_ImageViews
      mergeMetadata_CreationTime mergeMetadata_PhotoTakenTime mergeMetadata_ModificationTime
      mergeMetadata_GeoData mergeMetadata_GeoDataAlt mergeMetadata_Supplemental simp_thms)


theorem mergeMetadata_fills_gaps_witness:
  "Title (mergeMetadata gappyPrimary fullSupplemental) = ''a.jpg'' \<and>
   Description (mergeMetadata gappyPrimary fullSupplemental) = ''beach'' \<and>
   ImageViews (mergeMetadata gappyPrimary fullSupplemental) = 3 \<and>
   Timestamp (CreationTime (mergeMetadata gappyPrimary fullSupplemental)) = ''50'' \<and>
   Timestamp (PhotoTakenTime (mergeMetadata gappyPrimary fullSupplemental)) = ''100'' \<and>
   Timestamp (ModificationTime (mergeMetadata gappyPrimary fullSupplemental)) = [] \<and>
   Latitude (GeoData (mergeMetadata gappyPrimary fullSupplemental)) = 3 \<and>
   Altitude (GeoData (mergeMetadata gappyPrimary fullSupplemental)) = 5 \<and>
   Latitude (GeoDataAlt (mergeMetadata gappyPrimary fullSupplemental)) = 1"
  using mergeMetadata_fills_gaps [of gappyPrimary fullSupplemental]
  by (simp add: gappyPrimary_def fullSupplemental_def noStamp_def zeroGeoData_def hasFix_def
      word_sless_alt)

text \<open>
  Claim C3 as stated fails for the modification timestamp: the primary has none, the
  supplemental has one, and the merged record still has none.
\<close>

theorem mergeMetadata_drops_supplemental_modification_time:
  "Timestamp (ModificationTime zeroMetadata) = [] \<and>
   Timestamp (ModificationTime modifiedOnly) = ''1609459200'' \<and>
   Timestamp (ModificationTime (mergeMetadata zeroMetadata modifiedOnly)) = []"
  by (simp add: mergeMetadata_def zeroMetadata_def modifiedOnly_def noStamp_def zeroGeoData_def)

subsection \<open>Coordinates\<close>

text \<open>
  Claim C5, as amended. Latitude, longitude and altitude are resolved one by one: each is
  the primary fix's value when that value is not zero, otherwise the alternate fix's value
  when that is not zero. No coordinates are produced when the latitude or the longitude
  resolves to nothing; the altitude is optional. The three values need not come from the
  same fix.
\<close>

theorem gpsOf_componentwise:
  "gpsOf m =
    (if (Latitude (GeoData m) = 0 \<and> Latitude (GeoDataAlt m) = 0) \<or>
        (Longitude (GeoData m) = 0 \<and> Longitude (GeoDataAlt m) = 0)
     then None
     else Some (firstNonZero (Latitude (GeoData m)) (Latitude (GeoDataAlt m)),
                firstNonZero (Longitude (GeoData m)) (Longitude (GeoDataAlt m)),
                firstNonZeroOpt (Altitude (GeoData m)) (Altitude (GeoDataAlt m))))"
  by (simp add: gpsOf_def GetLatitude_def GetLongitude_def GetAltitude_def
      firstNonZero_def firstNonZeroOpt_def)

theorem gpsOf_componentwise_witness:
  "gpsOf mixedFixes = Some (7, 5, None)"
  using gpsOf_componentwise [of mixedFixes]
  by (simp add: mixedFixes_def firstNonZero_def firstNonZeroOpt_def)

text \<open>
  Claim C5 as stated fails: the primary fix of \<open>mixedFixes\<close> has a longitude, so the claim
  selects the primary fix as a unit, but the latitude handed on is the alternate fix's and
  the longitude the primary's.
\<close>

theorem gpsOf_mixes_fixes:
  "Longitude (GeoData mixedFixes) = 5 \<and>
   gpsOf mixedFixes = Some (Latitude (GeoDataAlt mixedFixes), Longitude (GeoData mixedFixes), None) \<and>
   Latitude (GeoDataAlt mixedFixes) \<noteq> Latitude (GeoData mixedFixes) \<and>
   Longitude (GeoData mixedFixes) \<noteq> Longitude (GeoDataAlt mixedFixes)"
  by (simp add: mixedFixes_def gpsOf_def GetLatitude_def GetLongitude_def GetAltitude_def)

subsection \<open>Timestamps\<close>

text \<open>
  Claim C6 (a non-numeric timestamp string is fatal for its field). The code breaks it for
  a string that starts with a number: the photo-taken timestamp \<open>12abc\<close> is read as the
  instant 12, because the scanner stops at the first byte that is not a digit and reports
  no error.
\<close>

theorem GetPhotoTime_accepts_numeric_prefix:
  "GetPhotoTime trailingLetters = Inr 12"
  by code_simp

text \<open>The rest of claim C6 holds: the photo-taken timestamp comes first, the creation
  timestamp second, the modification timestamp is not read, and an error of the chosen
  field is the result.\<close>

lemma GetPhotoTime_ignores_ModificationTime:
  "GetPhotoTime (Metadata t d i c mt g ga p s) = GetPhotoTime (Metadata t d i c mt' g ga p s)"
  by (simp add: GetPhotoTime_def)

lemma GetPhotoTime_prefers_PhotoTakenTime:
  "Timestamp (PhotoTakenTime m) \<noteq> [] \<Longrightarrow>
     GetPhotoTime m = parseTimestamp (Timestamp (PhotoTakenTime m))"
  by (simp add: GetPhotoTime_def)

lemma GetPhotoTime_falls_back_to_CreationTime:
  "Timestamp (PhotoTakenTime m) = [] \<Longrightarrow> Timestamp (CreationTime m) \<noteq> [] \<Longrightarrow>
     GetPhotoTime m = parseTimestamp (Timestamp (CreationTime m))"
  by (simp add: GetPhotoTime_def)

lemma GetPhotoTime_absent:
  "Timestamp (PhotoTakenTime m) = [] \<Longrightarrow> Timestamp (CreationTime m) = [] \<Longrightarrow>
     GetPhotoTime m = Inl (Errorf ''no valid timestamp found in metadata'')"
  by (simp add: GetPhotoTime_def)

text \<open>A string that does not start with a number is rejected, also when a creation
  timestamp could have stepped in.\<close>

lemma GetPhotoTime_rejects_letters:
  "GetPhotoTime (Metadata [] [] 0 noStamp noStamp zeroGeoData zeroGeoData \<lparr>Timestamp = ''abc''\<rparr> None) =
     Inl (Errorf ''invalid timestamp format: abc'')"
  by code_simp

lemma GetPhotoTime_no_fallback_after_bad_PhotoTakenTime:
  "GetPhotoTime (Metadata [] [] 0 \<lparr>Timestamp = ''1609459200''\<rparr> noStamp zeroGeoData zeroGeoData
      \<lparr>Timestamp = ''abc''\<rparr> None) =
     Inl (Errorf ''invalid timestamp format: abc'')"
  by code_simp

section \<open>Properties of the resolver\<close>

subsection \<open>The order of the probes\<close>

lemma uptoFirstOK_append:
  "uptoFirstOK stat (xs @ ys) =
    (if list_ex (\<lambda>c. statOK (stat c)) xs then uptoFirstOK stat xs else xs @ uptoFirstOK stat ys)"
  by (induction xs) auto

lemma uptoFirstOK_none:
  "\<not> list_ex (\<lambda>c. statOK (stat c)) xs \<Longrightarrow> uptoFirstOK stat xs = xs"
  by (induction xs) auto

lemma probeMarked_trace:
  "probes (snd (probeMarked stat new match sfx r)) =
     probes r @ uptoFirstOK stat (map (\<lambda>suffix. new @ suffix @ match @ ''.json'') sfx) \<and>
   fst (probeMarked stat new match sfx r) =
     list_ex (\<lambda>c. statOK (stat c)) (map (\<lambda>suffix. new @ suffix @ match @ ''.json'') sfx)"
proof (induction sfx arbitrary: r)
  case Nil
  show ?case by simp
next
  case (Cons suffix rest)
  show ?case
  proof (cases "statOK (stat (new @ suffix @ match @ ''.json''))")
    case True
    then show ?thesis by (cases "match = []") (simp_all add: Let_def)
  next
    case False
    then show ?thesis using Cons.IH by (cases "match = []") (simp_all add: Let_def)
  qed
qed

lemma probePlain_trace:
  "probes (snd (probePlain stat new sfx r)) =
     probes r @ uptoFirstOK stat (map (\<lambda>suffix. new @ suffix @ ''.json'') sfx) \<and>
   fst (probePlain stat new sfx r) =
     list_ex (\<lambda>c. statOK (stat c)) (map (\<lambda>suffix. new @ suffix @ ''.json'') sfx)"
proof (induction sfx arbitrary: r)
  case Nil
  show ?case by simp
next
  case (Cons suffix rest)
  show ?case
  proof (cases "statOK (stat (new @ suffix @ ''.json''))")
    case True
    then show ?thesis by (simp add: Let_def)
  next
    case False
    then show ?thesis using Cons.IH by (simp add: Let_def)
  qed
qed

lemma probeMarked_last:
  "jsonPath r = last (probes r) \<Longrightarrow> probes r \<noteq> [] \<Longrightarrow>
     jsonPath (snd (probeMarked stat new match sfx r)) = last (probes (snd (probeMarked stat new match sfx r)))
     \<and> probes (snd (probeMarked stat new match sfx r)) \<noteq> []"
  by (induction sfx arbitrary: r) (simp_all add: Let_def)

lemma probePlain_last:
  "jsonPath r = last (probes r) \<Longrightarrow> probes r \<noteq> [] \<Longrightarrow>
     jsonPath (snd (probePlain stat new sfx r)) = last (probes (snd (probePlain stat new sfx r)))
     \<and> probes (snd (probePlain stat new sfx r)) \<noteq> []"
  by (induction sfx arbitrary: r) (simp_all add: Let_def)

lemma checkSupplementalData_probes:
  "probes (checkSupplementalData os stat mediaPath) = uptoFirstOK stat (candidates os mediaPath)"
proof -
  let ?jp0 = "TrimSuffix mediaPath (Ext os mediaPath) @ ''.json''"
  let ?r0 = "\<lparr>result = stat ?jp0, jsonPath = ?jp0, probes = [?jp0]\<rparr>"
  obtain new match where nm: "dupNormalize mediaPath = (new, match)" by (cases "dupNormalize mediaPath")
  let ?marked = "map (\<lambda>suffix. new @ suffix @ match @ ''.json'') jsonSuffixes"
  let ?plain = "map (\<lambda>suffix. mediaPath @ suffix @ ''.json'') jsonSuffixes"
  have cand: "candidates os mediaPath = ?jp0 # ?marked @ ?plain"
    by (simp add: candidates_def nm)
  show ?thesis
  proof (cases "statOK (stat ?jp0)")
    case True
    then show ?thesis by (simp add: checkSupplementalData_def Let_def cand)
  next
    case False
    obtain b r1 where pm: "probeMarked stat new match jsonSuffixes ?r0 = (b, r1)"
      by (cases "probeMarked stat new match jsonSuffixes ?r0")
    have tr: "probes r1 = [?jp0] @ uptoFirstOK stat ?marked"
      and fl: "b = list_ex (\<lambda>c. statOK (stat c)) ?marked"
      using probeMarked_trace [of stat new match jsonSuffixes ?r0] pm by simp_all
    show ?thesis
    proof (cases b)
      case True
      then show ?thesis using False pm tr fl
        by (simp add: checkSupplementalData_def Let_def cand nm uptoFirstOK_append)
    next
      case bF: False
      have "probes (snd (probePlain stat mediaPath jsonSuffixes r1)) =
              probes r1 @ uptoFirstOK stat ?plain"
        using probePlain_trace [of stat mediaPath jsonSuffixes r1] by simp
      then show ?thesis using False pm tr fl bF
        by (simp add: checkSupplementalData_def Let_def cand nm uptoFirstOK_append uptoFirstOK_none)
    qed
  qed
qed

lemma checkSupplementalData_last:
  "jsonPath (checkSupplementalData os stat mediaPath) = last (probes (checkSupplementalData os stat mediaPath))"
proof -
  let ?jp0 = "TrimSuffix mediaPath (Ext os mediaPath) @ ''.json''"
  let ?r0 = "\<lparr>result = stat ?jp0, jsonPath = ?jp0, probes = [?jp0]\<rparr>"
  obtain new match where nm: "dupNormalize mediaPath = (new, match)" by (cases "dupNormalize mediaPath")
  obtain b r1 where pm: "probeMarked stat new match jsonSuffixes ?r0 = (b, r1)"
    by (cases "probeMarked stat new match jsonSuffixes ?r0")
  have r1: "jsonPath r1 = last (probes r1) \<and> probes r1 \<noteq> []"
    using probeMarked_last [of ?r0 stat new match jsonSuffixes] pm by simp
  have r2: "jsonPath (snd (probePlain stat mediaPath jsonSuffixes r1)) =
            last (probes (snd (probePlain stat mediaPath jsonSuffixes r1)))"
    using probePlain_last [of r1 stat mediaPath jsonSuffixes] r1 by simp
  show ?thesis using pm r1 r2
    by (cases b) (simp_all add: checkSupplementalData_def Let_def nm)
qed

lemma jsonSuffixes_truncations:
  "jsonSuffixes = [] # map (\<lambda>n. take n ''.supplemental-metadata'') (rev [2..<23])"
  by (simp add: jsonSuffixes_def upt_rec)

text \<open>
  Claim C2, as amended. The suffix list starts with the empty suffix, followed by the full
  literal \<open>.supplemental-metadata\<close> and each one-character-shorter truncation of it down to
  \<open>.s\<close>. The resolver gives to \<open>os.Stat\<close> exactly the candidates in their order (the
  extension swap; the normalized path with each suffix, the removed duplicate marker and
  \<open>.json\<close>; the original path with each suffix and \<open>.json\<close>) up to the first one that
  exists, and the path it returns is the last one probed.
\<close>

theorem probes_follow_candidates:
  "jsonSuffixes = [] # map (\<lambda>n. take n ''.supplemental-metadata'') (rev [2..<23]) \<and>
   probes (checkSupplementalData os stat mediaPath) = uptoFirstOK stat (candidates os mediaPath) \<and>
   jsonPath (checkSupplementalData os stat mediaPath) =
     last (probes (checkSupplementalData os stat mediaPath))"
  using jsonSuffixes_truncations checkSupplementalData_probes [of os stat mediaPath]
    checkSupplementalData_last [of os stat mediaPath]
  by blast

theorem probes_follow_candidates_witness:
  "probes (checkSupplementalData windows
             (statIn [''C:'' @ [backslash] @ ''Takeout'' @ [backslash] @ ''IMG.jpg.supplemental-metadata(2).json''])
             winDuplicate) =
     [''C:'' @ [backslash] @ ''Takeout'' @ [backslash] @ ''IMG(2).json'',
      ''C:'' @ [backslash] @ ''Takeout'' @ [backslash] @ ''IMG.jpg(2).json'',
      ''C:'' @ [backslash] @ ''Takeout'' @ [backslash] @ ''IMG.jpg.supplemental-metadata(2).json'']"
proof -
  have "uptoFirstOK (statIn [''C:'' @ [backslash] @ ''Takeout'' @ [backslash] @ ''IMG.jpg.supplemental-metadata(2).json''])
          (candidates windows winDuplicate) =
     [''C:'' @ [backslash] @ ''Takeout'' @ [backslash] @ ''IMG(2).json'',
      ''C:'' @ [backslash] @ ''Takeout'' @ [backslash] @ ''IMG.jpg(2).json'',
      ''C:'' @ [backslash] @ ''Takeout'' @ [backslash] @ ''IMG.jpg.supplemental-metadata(2).json'']"
    by code_simp
  then show ?thesis
    using probes_follow_candidates [of windows
      "statIn [''C:'' @ [backslash] @ ''Takeout'' @ [backslash] @ ''IMG.jpg.supplemental-metadata(2).json'']"
      winDuplicate]
    by simp
qed

text \<open>
  Claim C2 as stated fails: the first suffix tried is the empty one, not the full literal
  that heads the order of the specification; with both \<open>a.jpg.json\<close> and
  \<open>a.jpg.supplemental-metadata.json\<close> present, the resolver returns the former.
\<close>

theorem empty_suffix_is_tried_first:
  "hd jsonSuffixes = [] \<and>
   hd specSuffixOrder = ''.supplemental-metadata'' \<and>
   jsonPath (checkSupplementalData unix
      (statIn [''/takeout/a.jpg.json'', ''/takeout/a.jpg.supplemental-metadata.json''])
      ''/takeout/a.jpg'') = ''/takeout/a.jpg.json''"
  by code_simp

subsection \<open>The extension swap\<close>

text \<open>
  Claim C4. When the path obtained by replacing the media file's extension with \<open>.json\<close>
  exists (\<open>os.Stat\<close> returns no error), resolution returns exactly that path with the
  file's info, and the only call of \<open>os.Stat\<close> is the one on that path.
\<close>

theorem extension_swap_wins:
  assumes "stat (TrimSuffix mediaPath (Ext os mediaPath) @ ''.json'') = Inr info"
  shows "checkSupplementalData os stat mediaPath =
           \<lparr>result = Inr info,
            jsonPath = TrimSuffix mediaPath (Ext os mediaPath) @ ''.json'',
            probes = [TrimSuffix mediaPath (Ext os mediaPath) @ ''.json'']\<rparr>"
  using assms by (simp add: checkSupplementalData_def Let_def statOK_def)

theorem extension_swap_wins_witness:
  "checkSupplementalData unix (statIn [''/takeout/a.json'', ''/takeout/a.jpg.json'']) ''/takeout/a.jpg'' =
     \<lparr>result = Inr \<lparr>IsDir = False\<rparr>, jsonPath = ''/takeout/a.json'', probes = [''/takeout/a.json'']\<rparr>"
proof -
  have swap: "TrimSuffix ''/takeout/a.jpg'' (Ext unix ''/takeout/a.jpg'') @ ''.json'' = ''/takeout/a.json''"
    by code_simp
  have found: "statIn [''/takeout/a.json'', ''/takeout/a.jpg.json'']
                 (TrimSuffix ''/takeout/a.jpg'' (Ext unix ''/takeout/a.jpg'') @ ''.json'') = Inr \<lparr>IsDir = False\<rparr>"
    unfolding swap by (simp add: statIn_def)
  show ?thesis
    using extension_swap_wins [where stat = "statIn [''/takeout/a.json'', ''/takeout/a.jpg.json'']"
        and mediaPath = "''/takeout/a.jpg''" and os = unix, OF found]
    unfolding swap .
qed

subsection \<open>Duplicate markers\<close>

text \<open>
  Claim C1 (a single parenthesized number in the final path segment is removed). The code
  breaks it for every path without a backslash: the file name \<open>IMG(2).jpg\<close> holds exactly
  one such run, yet for the path \<open>/takeout/IMG(2).jpg\<close> of a Unix system the step returns
  the path unchanged and no marker, because it looks for the file name behind the last
  backslash only.
\<close>

theorem dupNormalize_needs_a_backslash:
  "FindAllString ''IMG(2).jpg'' = [''(2)''] \<and>
   dupNormalize ''/takeout/IMG(2).jpg'' = (''/takeout/IMG(2).jpg'', [])"
  by code_simp

text \<open>On a Windows path the marker is removed.\<close>

lemma winDuplicate_normalized:
  "dupNormalize winDuplicate = (''C:'' @ [backslash] @ ''Takeout'' @ [backslash] @ ''IMG.jpg'', ''(2)'')"
  by code_simp

text \<open>
  Behind a backslash the step does what the claim says. A match of the regular expression
  is an opening parenthesis, digits and a closing parenthesis; when \<open>FindAllString\<close> finds
  exactly one match in the file name, \<open>strings.Replace\<close> removes exactly that run, and
  with any other number of matches the path stays as it is.
\<close>

lemma paren_not_digit: "\<not> isDigit (CHR '')'')"
  by (simp add: isDigit_def byte_in_def)

lemma matchLen_of_shape:
  assumes "ds \<noteq> []" and "\<forall>d\<in>set ds. isDigit d"
  shows "matchLen (CHR ''('' # ds @ CHR '')'' # rest) = length ds + 2"
proof -
  have "takeWhile isDigit (ds @ CHR '')'' # rest) = ds"
    using assms(2) paren_not_digit by (simp add: takeWhile_append2)
  then show ?thesis using assms(1) by (simp add: matchLen_def Let_def)
qed

lemma matchLen_shape:
  assumes "0 < matchLen s"
  shows "\<exists>ds rest. s = CHR ''('' # ds @ CHR '')'' # rest \<and> ds \<noteq> [] \<and>
           (\<forall>d\<in>set ds. isDigit d) \<and> matchLen s = length ds + 2"
proof (cases s)
  case Nil
  then show ?thesis using assms by (simp add: matchLen_def)
next
  case (Cons c r)
  let ?ds = "takeWhile isDigit r"
  from assms Cons have c: "c = CHR ''(''" and k: "0 < length ?ds"
    and cl: "take 1 (drop (length ?ds) r) = '')''" and ml: "matchLen s = length ?ds + 2"
    by (auto simp add: matchLen_def Let_def split: if_splits)
  have "drop (length ?ds) r = dropWhile isDigit r"
    by (simp add: dropWhile_eq_drop)
  with cl obtain rest where rest: "dropWhile isDigit r = CHR '')'' # rest"
    by (cases "dropWhile isDigit r") auto
  have "r = ?ds @ dropWhile isDigit r" by simp
  then have "s = CHR ''('' # ?ds @ CHR '')'' # rest"
    using Cons c rest by simp
  moreover have "?ds \<noteq> []" using k by simp
  moreover have "\<forall>d\<in>set ?ds. isDigit d" by (auto dest: set_takeWhileD)
  ultimately show ?thesis using ml by blast
qed

lemma matchLen_le: "matchLen s \<le> length s"
proof (cases "0 < matchLen s")
  case True
  then show ?thesis using matchLen_shape [OF True] by auto
next
  case False
  then show ?thesis by simp
qed

lemma matchLen_append:
  assumes "0 < matchLen p"
  shows "matchLen (p @ q) = matchLen p"
proof -
  obtain ds rest where p: "p = CHR ''('' # ds @ CHR '')'' # rest" and ds: "ds \<noteq> []" "\<forall>d\<in>set ds. isDigit d"
    and ml: "matchLen p = length ds + 2"
    using matchLen_shape [OF assms] by blast
  have "p @ q = CHR ''('' # ds @ CHR '')'' # (rest @ q)" using p by simp
  then show ?thesis using matchLen_of_shape [OF ds, of "rest @ q"] ml by simp
qed

lemma matchLen_take:
  assumes "0 < matchLen s"
  shows "matchLen (take (matchLen s) s) = matchLen s"
proof -
  obtain ds rest where s: "s = CHR ''('' # ds @ CHR '')'' # rest" and ds: "ds \<noteq> []" "\<forall>d\<in>set ds. isDigit d"
    and ml: "matchLen s = length ds + 2"
    using matchLen_shape [OF assms] by blast
  have "take (matchLen s) s = CHR ''('' # ds @ CHR '')'' # []"
    using s ml by simp
  then show ?thesis using matchLen_of_shape [OF ds, of "[]"] ml by simp
qed

lemma matchLen_prefix:
  assumes "0 < matchLen m" and "matchLen m = length m" and "take (length m) s = m"
  shows "matchLen s = length m"
proof -
  have "s = m @ drop (length m) s" using assms(3) by (metis append_take_drop_id)
  then show ?thesis using matchLen_append [OF assms(1), of "drop (length m) s"] assms(2) by simp
qed

lemma FindAllString_Nil: "FindAllString [] = []"
  by (subst FindAllString.simps) simp

lemma FindAllString_skip:
  "s \<noteq> [] \<Longrightarrow> matchLen s = 0 \<Longrightarrow> FindAllString s = FindAllString (tl s)"
  by (subst FindAllString.simps) simp

lemma FindAllString_match:
  "0 < matchLen s \<Longrightarrow>
     FindAllString s = take (matchLen s) s # FindAllString (drop (matchLen s) s)"
  by (subst FindAllString.simps) (auto simp add: matchLen_def)

lemma Replace1_prefix:
  "s \<noteq> [] \<Longrightarrow> take (length old) s = old \<Longrightarrow> Replace1 s old new = new @ drop (length old) s"
  by (cases s) simp_all

lemma Replace1_skip:
  "take (length old) (c # cs) \<noteq> old \<Longrightarrow> Replace1 (c # cs) old new = c # Replace1 cs old new"
  by simp

lemma FindAllString_single:
  "FindAllString name = [m] \<Longrightarrow>
     \<exists>pre post. name = pre @ m @ post \<and> Replace1 name m [] = pre @ post \<and>
        0 < matchLen m \<and> matchLen m = length m \<and> FindAllString post = [] \<and>
        (\<forall>i < length pre. matchLen (drop i name) = 0)"
proof (induction name rule: FindAllString.induct)
  case (1 s)
  show ?case
  proof (cases "s = []")
    case True
    then show ?thesis using "1.prems" by (simp add: FindAllString_Nil)
  next
    case ne: False
    then obtain c cs where s: "s = c # cs" by (cases s) auto
    show ?thesis
    proof (cases "matchLen s = 0")
      case True
      have "FindAllString (tl s) = [m]"
        using "1.prems" FindAllString_skip [OF ne True] by simp
      from "1.IH"(1) [OF ne True this] obtain pre post where
        ih: "tl s = pre @ m @ post" "Replace1 (tl s) m [] = pre @ post"
          "0 < matchLen m" "matchLen m = length m" "FindAllString post = []"
          "\<forall>i < length pre. matchLen (drop i (tl s)) = 0"
        by blast
      have nopre: "take (length m) s \<noteq> m"
      proof
        assume "take (length m) s = m"
        from matchLen_prefix [OF ih(3) ih(4) this] have "matchLen s = length m" .
        with True ih(3) ih(4) show False by simp
      qed
      have "Replace1 (c # cs) m [] = c # Replace1 cs m []"
        using nopre s Replace1_skip [of m c cs "[]"] by blast
      then have rep: "Replace1 s m [] = (c # pre) @ post"
        using s ih(2) by simp
      have all0: "\<forall>i < length (c # pre). matchLen (drop i s) = 0"
      proof (intro allI impI)
        fix i assume "i < length (c # pre)"
        then show "matchLen (drop i s) = 0"
          using True ih(6) s by (cases i) auto
      qed
      have "s = (c # pre) @ m @ post" using s ih(1) by simp
      then show ?thesis using rep ih(3,4,5) all0 by blast
    next
      case False
      then have pos: "0 < matchLen s" by simp
      have m: "m = take (matchLen s) s"
        and post: "FindAllString (drop (matchLen s) s) = []"
        using "1.prems" FindAllString_match [OF pos] by simp_all
      have lm: "length m = matchLen s" using m matchLen_le [of s] by simp
      have mm: "matchLen m = length m" using matchLen_take [OF pos] m lm by simp
      have tk: "take (length m) s = m" by (subst lm, rule m [symmetric])
      have rep: "Replace1 s m [] = [] @ drop (matchLen s) s"
        using Replace1_prefix [OF ne tk, of "[]"] lm by simp
      have dec: "s = [] @ m @ drop (matchLen s) s" using m by simp
      have none: "\<forall>i < length ([]::string). matchLen (drop i s) = 0" by simp
      show ?thesis
        using dec rep pos mm lm post none by (intro exI [of _ "[]"] exI [of _ "drop (matchLen s) s"]) simp
    qed
  qed
qed

lemma filter_rev_upt_greatest:
  "j < k \<Longrightarrow> P j \<Longrightarrow> (\<forall>i. j < i \<and> i < k \<longrightarrow> \<not> P i) \<Longrightarrow>
     \<exists>rest. filter P (rev [0..<k]) = j # rest"
proof (induction k)
  case 0
  then show ?case by simp
next
  case (Suc k)
  show ?case
  proof (cases "j = k")
    case True
    then show ?thesis using Suc.prems by simp
  next
    case False
    then have "j < k" using Suc.prems by simp
    moreover have "\<not> P k" using Suc.prems \<open>j < k\<close> by simp
    ultimately show ?thesis using Suc by simp
  qed
qed

lemma take1_drop_mem: "take 1 (drop i s) = [c] \<Longrightarrow> c \<in> set s"
  by (metis in_set_dropD in_set_takeD list.set_intros(1))

lemma LastIndex_absent: "c \<notin> set s \<Longrightarrow> LastIndex s [c] = - 1"
proof -
  assume "c \<notin> set s"
  then have "filter (\<lambda>i. take (length [c]) (drop i s) = [c]) (rev [0..<Suc (length s)]) = []"
    using take1_drop_mem [of _ s c] by (auto simp add: filter_empty_conv simp del: upt_Suc)
  then show ?thesis unfolding LastIndex_def by (simp del: upt_Suc)
qed

lemma LastIndex_behind:
  assumes "c \<notin> set name"
  shows "LastIndex (dir @ c # name) [c] = int (length dir)"
proof -
  let ?s = "dir @ c # name"
  let ?P = "\<lambda>i. take (length [c]) (drop i ?s) = [c]"
  have here: "?P (length dir)" by simp
  have later: "\<forall>i. length dir < i \<and> i < Suc (length ?s) \<longrightarrow> \<not> ?P i"
  proof (intro allI impI)
    fix i assume i: "length dir < i \<and> i < Suc (length ?s)"
    then obtain n where n: "i = Suc (length dir) + n"
      by (metis Suc_leI le_Suc_ex plus_1_eq_Suc add.commute add_Suc_right add_Suc)
    have "drop i ?s = drop (i - Suc (length dir)) name"
      unfolding n by simp
    then show "\<not> ?P i" using assms take1_drop_mem [of "i - Suc (length dir)" name c] by auto
  qed
  have "length dir < Suc (length ?s)" by simp
  from filter_rev_upt_greatest [OF this, of ?P] here later
  obtain rest where "filter ?P (rev [0..<Suc (length ?s)]) = length dir # rest" by blast
  then show ?thesis unfolding LastIndex_def by (simp del: upt_Suc)
qed

lemma dupNormalize_without_backslash:
  "backslash \<notin> set path \<Longrightarrow> dupNormalize path = (path, [])"
  by (simp add: dupNormalize_def LastIndex_absent Let_def)

lemma dupNormalize_behind_backslash:
  assumes "backslash \<notin> set name"
  shows "dupNormalize (dir @ backslash # name) =
          (if length (FindAllString name) = 1
           then (dir @ backslash # Replace1 name (hd (FindAllString name)) [], hd (FindAllString name))
           else (dir @ backslash # name, []))"
  by (simp add: dupNormalize_def LastIndex_behind [OF assms] Let_def nat_add_distrib)

lemma single_marker_is_removed:
  assumes "backslash \<notin> set name" and "FindAllString name = [m]"
  shows "\<exists>pre post. name = pre @ m @ post \<and> 0 < matchLen m \<and> matchLen m = length m \<and>
           dupNormalize (dir @ backslash # name) = (dir @ backslash # pre @ post, m)"
proof -
  from FindAllString_single [OF assms(2)] obtain pre post where
    p: "name = pre @ m @ post" "Replace1 name m [] = pre @ post" "0 < matchLen m" "matchLen m = length m"
    by blast
  have "dupNormalize (dir @ backslash # name) = (dir @ backslash # Replace1 name m [], m)"
    using dupNormalize_behind_backslash [OF assms(1), of dir] assms(2) by simp
  then show ?thesis using p by metis
qed

lemma other_counts_keep_the_name:
  assumes "backslash \<notin> set name" and "length (FindAllString name) \<noteq> 1"
  shows "dupNormalize (dir @ backslash # name) = (dir @ backslash # name, [])"
  using dupNormalize_behind_backslash [OF assms(1), of dir] assms(2) by simp

section \<open>Properties of the processing of one media file\<close>

lemma say_fields [simp]:
  "stats (say line p) = stats p" "deletedFiles (say line p) = deletedFiles p"
  "stdout (say line p) = stdout p @ [line]" "verbose (say line p) = verbose p"
  "dryRun (say line p) = dryRun p"
  by (simp_all add: say_def)

lemma sayIf_fields [simp]:
  "stats (sayIf c line p) = stats p" "deletedFiles (sayIf c line p) = deletedFiles p"
  "verbose (sayIf c line p) = verbose p" "dryRun (sayIf c line p) = dryRun p"
  by (simp_all add: sayIf_def)

lemma recordApplied_stats:
  "ErrorCount (stats (recordApplied mediaPath res p)) = ErrorCount (stats p)"
  "SkippedFiles (stats (recordApplied mediaPath res p)) = SkippedFiles (stats p)"
  "JSONFiles (stats (recordApplied mediaPath res p)) = JSONFiles (stats p)"
  "ProcessedFiles (stats (recordApplied mediaPath res p)) = ProcessedFiles (stats p) + 1"
  "ModifiedFiles (stats (recordApplied mediaPath res p)) =
     (if Modified res then ModifiedFiles (stats p) + 1 else ModifiedFiles (stats p))"
  "UnmodifiedFiles (stats (recordApplied mediaPath res p)) =
     (if Modified res then UnmodifiedFiles (stats p) else UnmodifiedFiles (stats p) + 1)"
  "deletedFiles (recordApplied mediaPath res p) = deletedFiles p"
  by (simp_all add: recordApplied_def Let_def)

lemma deleteSidecar_failed:
  "Remove env path = Some err \<Longrightarrow> deleteSidecar env path p = say (WARN_delete_failed path err) p"
  by (simp add: deleteSidecar_def)

lemma deleteSidecar_done:
  "Remove env path = None \<Longrightarrow>
     deletedFiles (deleteSidecar env path p) = (deletedFiles p)(path := True) \<and>
     stats (deleteSidecar env path p) = stats p"
  by (simp add: deleteSidecar_def)

lemma processMediaFile_applied:
  assumes "result (checkSupplementalData (goos env) (Stat env) mediaPath) = Inr info"
    and "\<not> IsDir info"
    and "ParseJSON env (jsonPath (checkSupplementalData (goos env) (Stat env) mediaPath)) = Inr meta"
    and "\<not> dryRun p"
    and "ApplyToFile env mediaPath meta = Inr res"
  shows "processMediaFile env p mediaPath =
           (True, deleteSidecar env (jsonPath (checkSupplementalData (goos env) (Stat env) mediaPath))
                    (recordApplied mediaPath res
                       (p\<lparr>stats := (stats p)\<lparr>JSONFiles := JSONFiles (stats p) + 1\<rparr>\<rparr>)))"
  using assms by (simp add: processMediaFile_def Let_def)

text \<open>
  Claim C8. When the metadata has been applied (the sidecar was found, is a file and
  decodes, the run is not a dry run, and \<open>ApplyToFile\<close> returns no error) and the deletion
  of the sidecar then fails, the function still returns true, the last line printed is the
  warning, the error counter is unchanged, the unit is counted as processed and as modified
  or unmodified, and \<open>deletedFiles\<close> is unchanged: the path is recorded only in the branch
  where \<open>os.Remove\<close> succeeds.
\<close>

theorem failed_deletion_is_only_a_warning:
  assumes "result (checkSupplementalData (goos env) (Stat env) mediaPath) = Inr info"
    and "\<not> IsDir info"
    and "ParseJSON env (jsonPath (checkSupplementalData (goos env) (Stat env) mediaPath)) = Inr meta"
    and "\<not> dryRun p"
    and "ApplyToFile env mediaPath meta = Inr res"
    and "Remove env (jsonPath (checkSupplementalData (goos env) (Stat env) mediaPath)) = Some err"
  shows "fst (processMediaFile env p mediaPath) = True \<and>
         last (stdout (snd (processMediaFile env p mediaPath))) =
           WARN_delete_failed (jsonPath (checkSupplementalData (goos env) (Stat env) mediaPath)) err \<and>
         ErrorCount (stats (snd (processMediaFile env p mediaPath))) = ErrorCount (stats p) \<and>
         ProcessedFiles (stats (snd (processMediaFile env p mediaPath))) = ProcessedFiles (stats p) + 1 \<and>
         ModifiedFiles (stats (snd (processMediaFile env p mediaPath))) =
           (if Modified res then ModifiedFiles (stats p) + 1 else ModifiedFiles (stats p)) \<and>
         UnmodifiedFiles (stats (snd (processMediaFile env p mediaPath))) =
           (if Modified res then UnmodifiedFiles (stats p) else UnmodifiedFiles (stats p) + 1) \<and>
         deletedFiles (snd (processMediaFile env p mediaPath)) = deletedFiles p"
proof -
  let ?jp = "jsonPath (checkSupplementalData (goos env) (Stat env) mediaPath)"
  let ?p1 = "p\<lparr>stats := (stats p)\<lparr>JSONFiles := JSONFiles (stats p) + 1\<rparr>\<rparr>"
  have run: "processMediaFile env p mediaPath =
               (True, say (WARN_delete_failed ?jp err) (recordApplied mediaPath res ?p1))"
    using processMediaFile_applied [OF assms(1-5)] deleteSidecar_failed [OF assms(6)] by simp
  show ?thesis
    unfolding run by (simp add: recordApplied_stats)
qed

theorem failed_deletion_is_only_a_warning_witness:
  "fst (processMediaFile (toyEnv plainFolder (Some ErrPermission)) quietProcessor ''/takeout/a.jpg'') = True \<and>
   last (stdout (snd (processMediaFile (toyEnv plainFolder (Some ErrPermission)) quietProcessor ''/takeout/a.jpg''))) =
     WARN_delete_failed ''/takeout/a.json'' ErrPermission \<and>
   ErrorCount (stats (snd (processMediaFile (toyEnv plainFolder (Some ErrPermission)) quietProcessor ''/takeout/a.jpg''))) = 0 \<and>
   ProcessedFiles (stats (snd (processMediaFile (toyEnv plainFolder (Some ErrPermission)) quietProcessor ''/takeout/a.jpg''))) = 1 \<and>
   deletedFiles (snd (processMediaFile (toyEnv plainFolder (Some ErrPermission)) quietProcessor ''/takeout/a.jpg'')) ''/takeout/a.json'' = False"
proof -
  let ?env = "toyEnv plainFolder (Some ErrPermission)"
  let ?r = "checkSupplementalData (goos ?env) (Stat ?env) ''/takeout/a.jpg''"
  have found: "result ?r = Inr \<lparr>IsDir = False\<rparr>" by code_simp
  have path: "jsonPath ?r = ''/takeout/a.json''" by code_simp
  have plain: "\<not> IsDir \<lparr>IsDir = False\<rparr>" by simp
  have parsed: "ParseJSON ?env (jsonPath ?r) = Inr decoded" by code_simp
  have wet: "\<not> dryRun quietProcessor" by (simp add: quietProcessor_def New_def)
  have appl: "ApplyToFile ?env ''/takeout/a.jpg'' decoded =
     Inr \<lparr>Modified = True, Details = ''/takeout/a.jpg'', ExistingData = [], NewData = ''DateTime=set''\<rparr>"
    by code_simp
  have rem: "Remove ?env (jsonPath ?r) = Some ErrPermission" by (simp add: toyEnv_def)
  show ?thesis
    using failed_deletion_is_only_a_warning [OF found plain parsed wet appl rem]
    by (simp add: path quietProcessor_def New_def zeroStatistics_def)
qed

text \<open>The other branch: a successful deletion records the path, and \<open>deletedFiles\<close>
  changes in no other way.\<close>

lemma countError_fields:
  "SkippedFiles (stats (countError p)) = SkippedFiles (stats p)"
  "ErrorCount (stats (countError p)) = ErrorCount (stats p) + 1"
  "deletedFiles (countError p) = deletedFiles p"
  by (simp_all add: countError_def)

lemma dryRunReport_fields:
  "SkippedFiles (stats (dryRunReport env mediaPath path meta p)) = SkippedFiles (stats p)"
  "ErrorCount (stats (dryRunReport env mediaPath path meta p)) = ErrorCount (stats p)"
  "deletedFiles (dryRunReport env mediaPath path meta p) = deletedFiles p"
  by (simp_all add: dryRunReport_def Let_def)

lemma deleteSidecar_stats: "stats (deleteSidecar env path p) = stats p"
  by (simp add: deleteSidecar_def split: option.splits)

lemma deleteSidecar_deletedFiles:
  "deletedFiles (deleteSidecar env path p) =
     (case Remove env path of Some err \<Rightarrow> deletedFiles p | None \<Rightarrow> (deletedFiles p)(path := True))"
  by (simp add: deleteSidecar_def split: option.splits)

lemma successful_deletion_is_recorded:
  assumes "result (checkSupplementalData (goos env) (Stat env) mediaPath) = Inr info"
    and "\<not> IsDir info"
    and "ParseJSON env (jsonPath (checkSupplementalData (goos env) (Stat env) mediaPath)) = Inr meta"
    and "\<not> dryRun p"
    and "ApplyToFile env mediaPath meta = Inr res"
    and "Remove env (jsonPath (checkSupplementalData (goos env) (Stat env) mediaPath)) = None"
  shows "deletedFiles (snd (processMediaFile env p mediaPath)) =
           (deletedFiles p)(jsonPath (checkSupplementalData (goos env) (Stat env) mediaPath) := True)"
  using processMediaFile_applied [OF assms(1-5)] assms(6)
  by (simp add: deleteSidecar_deletedFiles recordApplied_stats)

lemma deletedFiles_changes_only_after_removal:
  assumes "deletedFiles (snd (processMediaFile env p mediaPath)) \<noteq> deletedFiles p"
  shows "Remove env (jsonPath (checkSupplementalData (goos env) (Stat env) mediaPath)) = None"
proof (rule ccontr)
  assume "Remove env (jsonPath (checkSupplementalData (goos env) (Stat env) mediaPath)) \<noteq> None"
  then obtain err where
    "Remove env (jsonPath (checkSupplementalData (goos env) (Stat env) mediaPath)) = Some err"
    by auto
  then have "deletedFiles (snd (processMediaFile env p mediaPath)) = deletedFiles p"
    by (simp add: processMediaFile_def Let_def countError_fields dryRunReport_fields
        deleteSidecar_deletedFiles recordApplied_stats split: sum.splits)
  with assms show False by simp
qed

subsection \<open>No sidecar\<close>

lemma not_found_changes_no_counter:
  assumes "result (checkSupplementalData (goos env) (Stat env) mediaPath) = Inl err"
    and "IsNotExist err"
  shows "fst (processMediaFile env p mediaPath) = False \<and>
         stats (snd (processMediaFile env p mediaPath)) = stats p \<and>
         deletedFiles (snd (processMediaFile env p mediaPath)) = deletedFiles p"
  using assms by (simp add: processMediaFile_def Let_def)

text \<open>
  Claim C7 (a media file without sidecar is counted in \<open>SkippedFiles\<close>, and not as an
  error). The code breaks the first half: in an empty folder resolution ends in not-found,
  and the processor comes back unchanged, with \<open>SkippedFiles\<close> still 0. No statement of
  the program ever assigns \<open>SkippedFiles\<close>. The error counter is indeed left alone, as the
  lemma above shows for every not-found resolution.
\<close>

theorem not_found_leaves_SkippedFiles_at_zero:
  "result (checkSupplementalData unix (Stat (toyEnv [] None)) ''/takeout/a.jpg'') = Inl ErrNotExist \<and>
   processMediaFile (toyEnv [] None) quietProcessor ''/takeout/a.jpg'' = (False, quietProcessor) \<and>
   SkippedFiles (stats quietProcessor) = 0"
proof -
  have nf: "result (checkSupplementalData unix (Stat (toyEnv [] None)) ''/takeout/a.jpg'') = Inl ErrNotExist"
    by code_simp
  have g: "goos (toyEnv [] None) = unix" by (simp add: toyEnv_def)
  have q: "\<not> verbose quietProcessor" "SkippedFiles (stats quietProcessor) = 0"
    by (simp_all add: quietProcessor_def New_def zeroStatistics_def)
  show ?thesis using nf q
    by (simp add: processMediaFile_def Let_def g sayIf_def)
qed

text \<open>In no run of \<open>processMediaFile\<close> does the counter change.\<close>

lemma SkippedFiles_is_never_assigned:
  "SkippedFiles (stats (snd (processMediaFile env p mediaPath))) = SkippedFiles (stats p)"
  by (simp add: processMediaFile_def Let_def countError_fields dryRunReport_fields
      deleteSidecar_stats recordApplied_stats split: sum.splits)

subsection \<open>Supported extensions\<close>

text \<open>
  Claim C9 (for every extension of the supported set the applier dispatches, and the
  unsupported branch cannot be reached). The code breaks it for \<open>.dng\<close>: the directory walk
  accepts \<open>raw.dng\<close> as a media file, but \<open>ApplyToFile\<close> knows neither an image nor a
  video of that extension and returns the error for an unsupported type.
\<close>

theorem dng_is_listed_but_not_applied:
  "isSupportedMediaFile unix ''/takeout/raw.dng'' \<and>
   ApplyToFile (toyEnv [] None) ''/takeout/raw.dng'' decoded =
     Inl (Errorf ''unsupported media file type: .dng'')"
  by code_simp

text \<open>For the other 23 extensions the claim holds: a supported file that is not a
  \<open>.dng\<close> is an image or a video for \<open>ApplyToFile\<close>, which then calls that applier.\<close>

lemma isSupportedMediaFile_iff:
  "isSupportedMediaFile os path \<longleftrightarrow>
     isImageFile os path \<or> isVideoFile os path \<or> ToLower (Ext os path) = ''.dng''"
  by (auto simp add: isSupportedMediaFile_def isImageFile_def isVideoFile_def Let_def
      supportedImageExts_def supportedVideoExts_def imageExts_def videoExts_def)

lemma ApplyToFile_dispatch:
  "isImageFile (goos env) path \<Longrightarrow> ApplyToFile env path meta = applyToImage env path meta"
  "\<not> isImageFile (goos env) path \<Longrightarrow> isVideoFile (goos env) path \<Longrightarrow>
     ApplyToFile env path meta = applyToVideo env path meta"
  by (simp_all add: ApplyToFile_def)

section \<open>Properties of ParseJSON\<close>

lemma mergeLayer_malformed:
  "Stat env path = Inr info \<Longrightarrow> parseSupplementalJSON env path = Inl err \<Longrightarrow>
     mergeLayer env path meta = meta"
  by (simp add: mergeLayer_def)

text \<open>
  Claim C10. When the primary sidecar can be read and decodes, \<open>ParseJSON\<close> returns a
  record and no error; a global or per-file supplemental sidecar that exists but cannot be
  read or decoded contributes nothing: the result is the one obtained from the other layer
  alone. \<open>ParseJSON\<close> has no access to the counters or the output.
\<close>

theorem ParseJSON_skips_malformed_layers:
  assumes "ReadFile env path = Inr data"
    and "Unmarshal env (stripBOM data) = Inr meta"
  shows "(\<exists>m. ParseJSON env path = Inr m) \<and>
         (\<forall>info err. Stat env (globalPath env path) = Inr info \<and>
                     parseSupplementalJSON env (globalPath env path) = Inl err \<longrightarrow>
            ParseJSON env path = Inr (mergeLayer env (perFilePath env path) meta)) \<and>
         (\<forall>info err. Stat env (perFilePath env path) = Inr info \<and>
                     parseSupplementalJSON env (perFilePath env path) = Inl err \<longrightarrow>
            ParseJSON env path = Inr (mergeLayer env (globalPath env path) meta))"
  using assms by (auto simp add: ParseJSON_def mergeLayer_malformed)

theorem ParseJSON_skips_malformed_layers_witness:
  "ParseJSON (toyEnv brokenGlobalFolder None) ''/takeout/a.json'' = Inr decoded"
proof -
  let ?env = "toyEnv brokenGlobalFolder None"
  have rd: "ReadFile ?env ''/takeout/a.json'' = Inr [0x7B, 0x7D]" by code_simp
  have um: "Unmarshal ?env (stripBOM [0x7B, 0x7D]) = Inr decoded" by code_simp
  have ex: "Stat ?env (globalPath ?env ''/takeout/a.json'') = Inr \<lparr>IsDir = False\<rparr>" by code_simp
  have bad: "parseSupplementalJSON ?env (globalPath ?env ''/takeout/a.json'') =
               Inl (Wrapf ''failed to unmarshal JSON'' (ErrOther ''invalid character''))"
    by code_simp
  have nopf: "mergeLayer ?env (perFilePath ?env ''/takeout/a.json'') decoded = decoded" by code_simp
  show ?thesis
    using ParseJSON_skips_malformed_layers [OF rd um] ex bad nopf by simp
qed

end
